theory Spec2Isabelle
  imports Complex_Main
begin

section \<open>Team availability and conversation assignment\<close>

text \<open>
  A shallow embedding of the availability-aware auto-assignment job
  (\<^verbatim>\<open>autoAssignConversation\<close> and its helpers) and of the availability data layer
  (\<^verbatim>\<open>updateUserAvailability\<close>, \<^verbatim>\<open>recordUserActivity\<close>,
  \<^verbatim>\<open>getAvailabilityAnalytics\<close>, \<^verbatim>\<open>processScheduledStatusChanges\<close>,
  \<^verbatim>\<open>getTeamWorkloadDistribution\<close>) together with the tRPC availability router.

  Conventions: a JavaScript \<^verbatim>\<open>number\<close> that holds a count, a score or a time in
  milliseconds is an \<^typ>\<open>int\<close>, any other a \<^typ>\<open>rat\<close> (every double is a rational
  number); a nullable column is an \<^typ>\<open>'a option\<close>; a rejected
  promise is the \<open>Inl\<close> branch of a sum; database tables are lists of rows.
\<close>

subsection \<open>Roster members and their availability\<close>

datatype availability_status = online | busy | away | offline

text \<open>\<^verbatim>\<open>UserRoles\<close>: the two team tiers, and any other role.\<close>

datatype user_role = CORE | NON_CORE | OTHER_ROLE

text \<open>\<^verbatim>\<open>UserWithMailboxAccessData\<close>, with the fields the assignment job reads.\<close>

record user_with_mailbox_access =
  member_id :: string
  displayName :: string
  role :: user_role
  member_keywords :: "string list"

text \<open>The \<^verbatim>\<open>availability\<close> object of an \<^verbatim>\<open>AvailableTeamMember\<close>.\<close>

record member_availability =
  a_status :: availability_status
  a_currentWorkload :: int
  a_isAvailableForAssignment :: bool
  a_customMessage :: "string option"

record available_team_member = user_with_mailbox_access +
  availability :: member_availability

definition WORKLOAD_THRESHOLDS :: "availability_status \<Rightarrow> int" where
  "WORKLOAD_THRESHOLDS s = (case s of online \<Rightarrow> 8 | busy \<Rightarrow> 3 | away \<Rightarrow> 0 | offline \<Rightarrow> 0)"

definition PRIORITY_SCORES :: "availability_status \<Rightarrow> int" where
  "PRIORITY_SCORES s = (case s of online \<Rightarrow> 100 | busy \<Rightarrow> 50 | away \<Rightarrow> 0 | offline \<Rightarrow> 0)"

subsection \<open>Scoring and selection\<close>

definition calculateMemberScore :: "available_team_member \<Rightarrow> bool \<Rightarrow> int" where
  "calculateMemberScore member hasExpertiseMatch =
     (let baseScore = PRIORITY_SCORES (a_status (availability member));
          workloadPenalty = min (a_currentWorkload (availability member) * 5) 50;
          expertiseBonus = (if hasExpertiseMatch then 25 else 0);
          roleBonus = (if role member = CORE then 10 else 0)
      in max 0 (baseScore - workloadPenalty + expertiseBonus + roleBonus))"

record scored_member =
  sm_member :: available_team_member
  sm_score :: int
  sm_hasExpertise :: bool

text \<open>
  The comparator handed to \<^verbatim>\<open>Array.prototype.sort\<close>: descending score, then
  ascending workload.
\<close>

definition compareScored :: "scored_member \<Rightarrow> scored_member \<Rightarrow> int" where
  "compareScored a b =
     (if sm_score a \<noteq> sm_score b then sm_score b - sm_score a
      else if a_currentWorkload (availability (sm_member a)) \<noteq>
              a_currentWorkload (availability (sm_member b))
      then a_currentWorkload (availability (sm_member a)) -
           a_currentWorkload (availability (sm_member b))
      else 0)"

text \<open>
  \<^verbatim>\<open>Array.prototype.sort\<close> is a stable sort; with a comparator that is a total
  preorder its result is the stable insertion sort below.
\<close>

fun insertBy :: "('a \<Rightarrow> 'a \<Rightarrow> int) \<Rightarrow> 'a \<Rightarrow> 'a list \<Rightarrow> 'a list" where
  "insertBy cmp x [] = [x]"
| "insertBy cmp x (y # ys) = (if cmp x y \<le> 0 then x # y # ys else y # insertBy cmp x ys)"

definition sortBy :: "('a \<Rightarrow> 'a \<Rightarrow> int) \<Rightarrow> 'a list \<Rightarrow> 'a list" where
  "sortBy cmp xs = foldr (insertBy cmp) xs []"

definition membersWithScores ::
  "available_team_member list \<Rightarrow> available_team_member list \<Rightarrow> scored_member list" where
  "membersWithScores availableMembers expertiseMatches =
     sortBy compareScored
       (map (\<lambda>member. \<lparr>sm_member = member,
                        sm_score = calculateMemberScore member (member \<in> set expertiseMatches),
                        sm_hasExpertise = (member \<in> set expertiseMatches)\<rparr>)
            availableMembers)"

definition topCandidates ::
  "available_team_member list \<Rightarrow> available_team_member list \<Rightarrow> scored_member list" where
  "topCandidates availableMembers expertiseMatches =
     (let sorted = membersWithScores availableMembers expertiseMatches
      in case sorted of [] \<Rightarrow> []
         | first # _ \<Rightarrow> filter (\<lambda>m. sm_score m = sm_score first) sorted)"

text \<open>
  The round-robin cache \<^verbatim>\<open>cacheFor("auto-assign-availability-queue:" + mailboxId)\<close>
  is a map from the mailbox id to the stored index. The only writer is this module, which
  stores a remainder of a non-negative number, so the stored index is a \<^typ>\<open>nat\<close>.
\<close>

type_synonym round_robin_cache = "nat \<rightharpoonup> nat"

definition selectBestMember ::
  "available_team_member list \<Rightarrow> available_team_member list \<Rightarrow> nat \<Rightarrow> round_robin_cache
     \<Rightarrow> available_team_member option \<times> round_robin_cache" where
  "selectBestMember availableMembers expertiseMatches mailboxId cache =
     (if availableMembers = [] then (None, cache)
      else
        let top = topCandidates availableMembers expertiseMatches
        in if length top = 1 then (Some (sm_member (top ! 0)), cache)
           else
             let lastAssignedIndex = (case cache mailboxId of None \<Rightarrow> 0 | Some i \<Rightarrow> i);
                 nextIndex = (lastAssignedIndex + 1) mod length top
             in (if nextIndex < length top then Some (sm_member (top ! nextIndex)) else None,
                 cache(mailboxId \<mapsto> nextIndex)))"

definition canHandleWorkload :: "available_team_member \<Rightarrow> bool" where
  "canHandleWorkload member =
     (a_currentWorkload (availability member) < WORKLOAD_THRESHOLDS (a_status (availability member)))"

text \<open>The local \<^verbatim>\<open>membersToConsider\<close> of \<^verbatim>\<open>getNextTeamMember\<close>.\<close>

definition membersToConsider :: "available_team_member list \<Rightarrow> available_team_member list" where
  "membersToConsider availableMembers =
     (let workloadCapableMembers = filter canHandleWorkload availableMembers
      in if length workloadCapableMembers > 0 then workloadCapableMembers else availableMembers)"

subsection \<open>The availability tables\<close>

datatype change_reason = manual | auto_activity | auto_inactivity | business_hours | scheduled

text \<open>The business-hours column: a timezone and, per weekday name, start and end or null.\<close>

record business_hours_config =
  timezone :: string
  schedule :: "(string \<times> (string \<times> string) option) list"

text \<open>
  \<^verbatim>\<open>UserAvailabilityData\<close>, which is also a row of the table \<^verbatim>\<open>user_availability\<close>:
  the columns \<^verbatim>\<open>id\<close>, \<^verbatim>\<open>metadata\<close> and the timestamps of the row are never read
  or written by the code below. Times are milliseconds since the epoch.
\<close>

record user_availability_data =
  userId :: string
  mailboxId :: nat
  status :: availability_status
  customMessage :: "string option"
  lastActivityAt :: int
  lastStatusChangeAt :: int
  autoAwayAt :: "int option"
  scheduledReturnAt :: "int option"
  businessHours :: "business_hours_config option"

record session_data =
  conversationsHandled :: "int option"
  messagesReplied :: "int option"
  averageResponseTime :: "rat option"

text \<open>
  A row of \<^verbatim>\<open>availability_history\<close>. \<^verbatim>\<open>createdAt\<close> comes from
  \<^verbatim>\<open>withTimestamps\<close> and is the time of the insert.
\<close>

record availability_history_row =
  h_userId :: string
  h_mailboxId :: nat
  fromStatus :: availability_status
  toStatus :: availability_status
  durationSeconds :: "int option"
  changeReason :: "change_reason option"
  sessionData :: "session_data option"
  createdAt :: int

text \<open>
  The \<^verbatim>\<open>updates\<close> argument of \<^verbatim>\<open>updateUserAvailability\<close>:
  \<^verbatim>\<open>Partial<UserAvailabilityData>\<close> with \<^verbatim>\<open>changeReason\<close> and \<^verbatim>\<open>sessionData\<close>.
  \<open>None\<close> is an absent key; for a nullable field \<open>Some None\<close> is an explicit null.
  No caller passes \<^verbatim>\<open>userId\<close> or \<^verbatim>\<open>mailboxId\<close> in the updates, and they are left out.
\<close>

record availability_updates =
  u_status :: "availability_status option"
  u_customMessage :: "string option option"
  u_lastActivityAt :: "int option"
  u_lastStatusChangeAt :: "int option"
  u_autoAwayAt :: "int option option"
  u_scheduledReturnAt :: "int option option"
  u_businessHours :: "business_hours_config option option"
  u_changeReason :: "change_reason option"
  u_sessionData :: "session_data option"

definition noUpdates :: availability_updates where
  "noUpdates = \<lparr>u_status = None, u_customMessage = None, u_lastActivityAt = None,
      u_lastStatusChangeAt = None, u_autoAwayAt = None, u_scheduledReturnAt = None,
      u_businessHours = None, u_changeReason = None, u_sessionData = None\<rparr>"

subsection \<open>Conversations\<close>

record conversation_message =
  msg_role :: string
  cleanedUpText :: "string option"

record conversation =
  conv_id :: nat
  conv_mailboxId :: nat
  conv_status :: string
  assignedToId :: "string option"
  mergedIntoId :: "nat option"
  subject :: "string option"
  messages :: "conversation_message list"

subsection \<open>The stores and the collaborators\<close>

text \<open>
  Everything the code writes: the two availability tables, the conversations table with
  the notes appended to conversations, the round-robin cache, and the events delivered on
  the realtime channel of a mailbox.
\<close>

text \<open>
  The note written with an assignment: the reasoning of the expertise query, or the
  sentence built from the assignee's status and workload.
\<close>

datatype assignment_note = Reasoning string | AvailabilityAndWorkload availability_status int

record world =
  userAvailabilityTbl :: "user_availability_data list"
  availabilityHistoryTbl :: "availability_history_row list"
  conversationsTbl :: "conversation list"
  conversationNotes :: "(nat \<times> assignment_note) list"
  roundRobinCache :: round_robin_cache
  realtimeEvents :: "(nat \<times> user_availability_data) list"

datatype error =
    NonRetriableError
  | UpdateFailed
  | CreateFailed
  | PublishRejected
  | AIQueryError string
  | TRPCError string

text \<open>The result of the expertise query (\<^verbatim>\<open>matches\<close> is a finite map, kept as a list).\<close>

record ai_result =
  matches :: "(string \<times> bool) list"
  reasoning :: string
  confidenceScore :: "rat option"
  urgencyLevel :: "string option"

text \<open>
  The collaborators whose code is outside these sources are parameters: whether a publish
  on the realtime channel is fulfilled or rejected, the answer or the rejection of the
  expertise query, and the two lookups of the mailbox and of its users.

  So are two facts of the runtime. A division or an addition of numbers that are not
  integers gives the exact result rounded to a double: \<open>roundToDouble\<close> is that rounding.
  An operation that reads the clock more than once reads later times after the first
  reading: \<open>laterReadings now k\<close> is the reading of the \<open>k\<close>-th \<^verbatim>\<open>new Date()\<close> after the
  one that gave \<open>now\<close>.
\<close>

record env =
  publishToRealtime :: "nat \<Rightarrow> user_availability_data \<Rightarrow> bool"
  runAIObjectQuery :: "nat \<Rightarrow> available_team_member list \<Rightarrow> string \<Rightarrow> error + ai_result"
  getMailboxById :: "nat \<Rightarrow> nat option"
  getUsersWithMailboxAccess :: "nat \<Rightarrow> user_with_mailbox_access list option"
  roundToDouble :: "rat \<Rightarrow> rat"
  laterReadings :: "int \<Rightarrow> nat \<Rightarrow> int"

subsection \<open>Reading and updating a user's availability\<close>

definition getUserAvailability :: "string \<Rightarrow> nat \<Rightarrow> world \<Rightarrow> user_availability_data option" where
  "getUserAvailability uid mid w =
     find (\<lambda>r. userId r = uid \<and> mailboxId r = mid) (userAvailabilityTbl w)"

text \<open>The rows of a mailbox, ordered by descending \<^verbatim>\<open>lastActivityAt\<close>.\<close>

definition getAllTeamAvailability :: "nat \<Rightarrow> world \<Rightarrow> user_availability_data list" where
  "getAllTeamAvailability mid w =
     sort_key (\<lambda>r. - lastActivityAt r) (filter (\<lambda>r. mailboxId r = mid) (userAvailabilityTbl w))"

text \<open>The \<^verbatim>\<open>.set({...})\<close> of the update branch, applied to one row.\<close>

definition applySet ::
  "availability_updates \<Rightarrow> int \<Rightarrow> user_availability_data \<Rightarrow> user_availability_data
     \<Rightarrow> user_availability_data" where
  "applySet updates now current r =
     r\<lparr>status := (case u_status updates of None \<Rightarrow> status r | Some s \<Rightarrow> s),
       customMessage := (case u_customMessage updates of None \<Rightarrow> customMessage r | Some v \<Rightarrow> v),
       autoAwayAt := (case u_autoAwayAt updates of None \<Rightarrow> autoAwayAt r | Some v \<Rightarrow> v),
       scheduledReturnAt :=
         (case u_scheduledReturnAt updates of None \<Rightarrow> scheduledReturnAt r | Some v \<Rightarrow> v),
       businessHours := (case u_businessHours updates of None \<Rightarrow> businessHours r | Some v \<Rightarrow> v),
       lastStatusChangeAt :=
         (if u_status updates \<noteq> None then now else lastStatusChangeAt current),
       lastActivityAt := now\<rparr>"

text \<open>The \<^verbatim>\<open>.values({...})\<close> of the create branch.\<close>

definition createdRow :: "string \<Rightarrow> nat \<Rightarrow> availability_updates \<Rightarrow> int \<Rightarrow> user_availability_data" where
  "createdRow uid mid updates now =
     \<lparr>userId = uid, mailboxId = mid,
      status = (case u_status updates of None \<Rightarrow> online | Some s \<Rightarrow> s),
      customMessage = (case u_customMessage updates of None \<Rightarrow> None | Some v \<Rightarrow> v),
      lastActivityAt = (case u_lastActivityAt updates of None \<Rightarrow> now | Some t \<Rightarrow> t),
      lastStatusChangeAt = (case u_lastStatusChangeAt updates of None \<Rightarrow> now | Some t \<Rightarrow> t),
      autoAwayAt = (case u_autoAwayAt updates of None \<Rightarrow> None | Some v \<Rightarrow> v),
      scheduledReturnAt = (case u_scheduledReturnAt updates of None \<Rightarrow> None | Some v \<Rightarrow> v),
      businessHours = (case u_businessHours updates of None \<Rightarrow> None | Some v \<Rightarrow> v)\<rparr>"

text \<open>
  The callback of \<^verbatim>\<open>db.transaction\<close>, up to the publish: the writes to the two tables
  and the row that is returned. A rejection inside the callback is \<open>Inl\<close>.
\<close>

definition transactionWrites ::
  "int \<Rightarrow> string \<Rightarrow> nat \<Rightarrow> availability_updates \<Rightarrow> world \<Rightarrow> error + (user_availability_data \<times> world)" where
  "transactionWrites now uid mid updates w =
     (let changeReasonV = (case u_changeReason updates of None \<Rightarrow> manual | Some r \<Rightarrow> r)
      in case getUserAvailability uid mid w of
           Some current \<Rightarrow>
             (let durationSecondsV = (now - lastStatusChangeAt current) div 1000;
                  hist = (case u_status updates of
                            None \<Rightarrow> availabilityHistoryTbl w
                          | Some newStatus \<Rightarrow>
                              if newStatus \<noteq> status current
                              then availabilityHistoryTbl w @
                                     [\<lparr>h_userId = uid, h_mailboxId = mid,
                                       fromStatus = status current, toStatus = newStatus,
                                       durationSeconds = Some durationSecondsV,
                                       changeReason = Some changeReasonV,
                                       sessionData = u_sessionData updates, createdAt = now\<rparr>]
                              else availabilityHistoryTbl w);
                  matching = (\<lambda>r. userId r = uid \<and> mailboxId r = mid);
                  returning = map (applySet updates now current)
                                  (filter matching (userAvailabilityTbl w));
                  tbl = map (\<lambda>r. if matching r then applySet updates now current r else r)
                            (userAvailabilityTbl w)
              in case returning of
                   [] \<Rightarrow> Inl UpdateFailed
                 | updated # _ \<Rightarrow>
                     Inr (updated, w\<lparr>userAvailabilityTbl := tbl, availabilityHistoryTbl := hist\<rparr>))
         | None \<Rightarrow>
             (let created = createdRow uid mid updates now
              in Inr (created, w\<lparr>userAvailabilityTbl := userAvailabilityTbl w @ [created]\<rparr>)))"

text \<open>
  \<^verbatim>\<open>updateUserAvailability\<close>. The publish is awaited inside the transaction callback:
  when it is rejected the callback is rejected, the transaction is rolled back (the
  caller keeps the world it had) and the rejection reaches the caller. \<open>now\<close> is the
  reading of the clock by \<^verbatim>\<open>new Date()\<close>.
\<close>

definition updateUserAvailability ::
  "env \<Rightarrow> int \<Rightarrow> string \<Rightarrow> nat \<Rightarrow> availability_updates \<Rightarrow> world
     \<Rightarrow> error + (user_availability_data \<times> world)" where
  "updateUserAvailability e now uid mid updates w =
     (case transactionWrites now uid mid updates w of
        Inl err \<Rightarrow> Inl err
      | Inr (result, w') \<Rightarrow>
          if publishToRealtime e mid result
          then Inr (result, w'\<lparr>realtimeEvents := realtimeEvents w' @ [(mid, result)]\<rparr>)
          else Inl PublishRejected)"

definition AUTO_AWAY_MINUTES :: int where
  "AUTO_AWAY_MINUTES = 15"

text \<open>
  \<^verbatim>\<open>recordUserActivity\<close>. For a user without a row the only reading of the clock is
  the one of the update. For a user with a row the function reads the clock itself
  (\<open>now\<close>) and the update reads it again, later. The result is the new world, or the
  rejection (the world is then the one before the call).
\<close>

definition activityUpdates :: "int \<Rightarrow> user_availability_data \<Rightarrow> availability_updates" where
  "activityUpdates now current =
     (let updates = noUpdates\<lparr>u_lastActivityAt := Some now\<rparr>;
          updates = (if status current = offline \<or> status current = away
                     then updates\<lparr>u_status := Some online, u_changeReason := Some auto_activity\<rparr>
                     else updates);
          updates = (if autoAwayAt current \<noteq> None
                     then updates\<lparr>u_autoAwayAt := Some (Some (now + AUTO_AWAY_MINUTES * 60 * 1000))\<rparr>
                     else updates)
      in updates)"

definition recordUserActivity :: "env \<Rightarrow> int \<Rightarrow> string \<Rightarrow> nat \<Rightarrow> world \<Rightarrow> error + world" where
  "recordUserActivity e now uid mid w =
     (case getUserAvailability uid mid w of
        None \<Rightarrow>
          map_sum id snd
            (updateUserAvailability e now uid mid
               (noUpdates\<lparr>u_status := Some online, u_changeReason := Some auto_activity\<rparr>) w)
      | Some current \<Rightarrow>
          map_sum id snd
            (updateUserAvailability e (laterReadings e now 0) uid mid
               (activityUpdates now current) w))"

subsection \<open>Analytics\<close>

record status_distribution =
  d_online :: nat
  d_busy :: nat
  d_away :: nat
  d_offline :: nat

record productivity_metrics =
  totalConversationsHandled :: int
  totalMessagesReplied :: int
  pm_averageResponseTime :: rat

record analytics =
  totalSessions :: nat
  averageSessionDuration :: rat
  statusDistribution :: status_distribution
  productivityMetrics :: productivity_metrics
  timelineData :: "(string \<times> nat \<times> nat \<times> nat \<times> nat) list"

text \<open>The counters that the \<^verbatim>\<open>forEach\<close> over the history rows updates.\<close>

record analytics_counters =
  totalDuration :: int
  distribution :: status_distribution
  totalConversations :: int
  totalMessages :: int
  totalResponseTime :: rat
  responseTimeCount :: nat

definition incrementStatus :: "availability_status \<Rightarrow> status_distribution \<Rightarrow> status_distribution" where
  "incrementStatus s d =
     (case s of online \<Rightarrow> d\<lparr>d_online := d_online d + 1\<rparr>
              | busy \<Rightarrow> d\<lparr>d_busy := d_busy d + 1\<rparr>
              | away \<Rightarrow> d\<lparr>d_away := d_away d + 1\<rparr>
              | offline \<Rightarrow> d\<lparr>d_offline := d_offline d + 1\<rparr>)"

text \<open>
  One iteration of the \<^verbatim>\<open>forEach\<close>. A duration, and an average response time, count
  when they are truthy: present and not zero. Durations and counts are integers, whose
  sums are exact; a response time is any double.
\<close>

definition countRecord ::
  "env \<Rightarrow> availability_history_row \<Rightarrow> analytics_counters \<Rightarrow> analytics_counters" where
  "countRecord e record c =
     (let c1 = (case durationSeconds record of
                  None \<Rightarrow> c
                | Some d \<Rightarrow>
                    if d \<noteq> 0
                    then c\<lparr>totalDuration := totalDuration c + d,
                           distribution := incrementStatus (fromStatus record) (distribution c)\<rparr>
                    else c)
      in case sessionData record of
           None \<Rightarrow> c1
         | Some sd \<Rightarrow>
             (let c2 = c1\<lparr>totalConversations := totalConversations c1 +
                            (case conversationsHandled sd of None \<Rightarrow> 0 | Some n \<Rightarrow> n),
                          totalMessages := totalMessages c1 +
                            (case messagesReplied sd of None \<Rightarrow> 0 | Some n \<Rightarrow> n)\<rparr>
              in case averageResponseTime sd of
                   None \<Rightarrow> c2
                 | Some t \<Rightarrow>
                     if t \<noteq> 0
                     then c2\<lparr>totalResponseTime := roundToDouble e (totalResponseTime c2 + t),
                             responseTimeCount := responseTimeCount c2 + 1\<rparr>
                     else c2))"

definition zeroCounters :: analytics_counters where
  "zeroCounters =
     \<lparr>totalDuration = 0,
      distribution = \<lparr>d_online = 0, d_busy = 0, d_away = 0, d_offline = 0\<rparr>,
      totalConversations = 0, totalMessages = 0, totalResponseTime = 0, responseTimeCount = 0\<rparr>"

text \<open>The fold over the rows that the query returned, and the two averages.\<close>

definition analyticsOf :: "env \<Rightarrow> availability_history_row list \<Rightarrow> analytics" where
  "analyticsOf e history =
     (let c = fold (countRecord e) history zeroCounters
      in \<lparr>totalSessions = length history,
          averageSessionDuration =
            (if length history > 0
             then roundToDouble e (of_int (totalDuration c) / of_nat (length history)) else 0),
          statusDistribution = distribution c,
          productivityMetrics =
            \<lparr>totalConversationsHandled = totalConversations c,
             totalMessagesReplied = totalMessages c,
             pm_averageResponseTime =
               (if responseTimeCount c > 0
                then roundToDouble e (totalResponseTime c / of_nat (responseTimeCount c))
                else 0)\<rparr>,
          timelineData = []\<rparr>)"

text \<open>
  The rows of the mailbox created in the range, newest first (the order of equal
  \<^verbatim>\<open>createdAt\<close> is the one of the table).
\<close>

definition historyInRange :: "nat \<Rightarrow> int \<Rightarrow> int \<Rightarrow> world \<Rightarrow> availability_history_row list" where
  "historyInRange mid startDate endDate w =
     sort_key (\<lambda>h. - createdAt h)
       (filter (\<lambda>h. h_mailboxId h = mid \<and> startDate \<le> createdAt h \<and> createdAt h \<le> endDate)
               (availabilityHistoryTbl w))"

definition getAvailabilityAnalytics ::
  "env \<Rightarrow> nat \<Rightarrow> int \<Rightarrow> int \<Rightarrow> world \<Rightarrow> analytics" where
  "getAvailabilityAnalytics e mid startDate endDate w =
     analyticsOf e (historyInRange mid startDate endDate w)"

subsection \<open>The scheduled sweep\<close>

text \<open>
  One \<^verbatim>\<open>for\<close> loop of the sweep: an update per row of the query result, in order. A
  rejected update ends the loop and the sweep; the updates before it stay committed.
  Every update reads the clock itself: \<open>k\<close> counts the readings since the one of the
  sweep, which gave \<open>now\<close>.
\<close>

fun updateEach ::
  "env \<Rightarrow> int \<Rightarrow> nat \<Rightarrow> availability_updates \<Rightarrow> user_availability_data list \<Rightarrow> world
     \<Rightarrow> world \<times> error option" where
  "updateEach e now k updates [] w = (w, None)"
| "updateEach e now k updates (user # users) w =
     (case updateUserAvailability e (laterReadings e now k) (userId user) (mailboxId user)
             updates w of
        Inl err \<Rightarrow> (w, Some err)
      | Inr (_, w') \<Rightarrow> updateEach e now (Suc k) updates users w')"

text \<open>A comparison with a null timestamp selects no row.\<close>

definition lteNow :: "int option \<Rightarrow> int \<Rightarrow> bool" where
  "lteNow t now = (case t of None \<Rightarrow> False | Some v \<Rightarrow> v \<le> now)"

definition scheduledReturns :: "int \<Rightarrow> world \<Rightarrow> user_availability_data list" where
  "scheduledReturns now w =
     filter (\<lambda>r. lteNow (scheduledReturnAt r) now \<and> status r = away) (userAvailabilityTbl w)"

definition autoAwayUsers :: "int \<Rightarrow> world \<Rightarrow> user_availability_data list" where
  "autoAwayUsers now w =
     filter (\<lambda>r. lteNow (autoAwayAt r) now \<and> status r = online) (userAvailabilityTbl w)"

definition scheduledReturnUpdates :: availability_updates where
  "scheduledReturnUpdates =
     noUpdates\<lparr>u_status := Some online, u_scheduledReturnAt := Some None,
               u_changeReason := Some scheduled\<rparr>"

definition autoAwayUpdates :: availability_updates where
  "autoAwayUpdates =
     noUpdates\<lparr>u_status := Some away, u_autoAwayAt := Some None,
               u_changeReason := Some auto_inactivity\<rparr>"

text \<open>
  The first loop of the sweep, and the second, which starts after the \<open>k\<close> readings of
  the first.
\<close>

definition scheduledReturnPass :: "env \<Rightarrow> int \<Rightarrow> world \<Rightarrow> world \<times> error option" where
  "scheduledReturnPass e now w =
     updateEach e now 0 scheduledReturnUpdates (scheduledReturns now w) w"

definition autoAwayPass :: "env \<Rightarrow> int \<Rightarrow> nat \<Rightarrow> world \<Rightarrow> world \<times> error option" where
  "autoAwayPass e now k w = updateEach e now k autoAwayUpdates (autoAwayUsers now w) w"

definition processScheduledStatusChanges :: "env \<Rightarrow> int \<Rightarrow> world \<Rightarrow> world \<times> error option" where
  "processScheduledStatusChanges e now w =
     (case scheduledReturnPass e now w of
        (w1, Some err) \<Rightarrow> (w1, Some err)
      | (w1, None) \<Rightarrow> autoAwayPass e now (length (scheduledReturns now w)) w1)"

subsection \<open>Workload of the team\<close>

text \<open>A row of \<^verbatim>\<open>getTeamWorkloadDistribution\<close>: the availability with two more fields.\<close>

record workload_row = user_availability_data +
  currentWorkload :: int
  isAvailableForAssignment :: bool

text \<open>
  The grouped count of the SQL query: the open conversations of the mailbox assigned to
  the user (0 when the query has no row for the user).
\<close>

definition openConversationCount :: "nat \<Rightarrow> string \<Rightarrow> world \<Rightarrow> int" where
  "openConversationCount mid uid w =
     int (length (filter (\<lambda>c. conv_mailboxId c = mid \<and> conv_status c = ''open'' \<and>
                              assignedToId c = Some uid)
                         (conversationsTbl w)))"

definition getTeamWorkloadDistribution :: "nat \<Rightarrow> world \<Rightarrow> workload_row list" where
  "getTeamWorkloadDistribution mid w =
     map (\<lambda>a. user_availability_data.extend a
                 (workload_row.fields (openConversationCount mid (userId a) w)
                                      (status a = online \<or> status a = busy)))
         (getAllTeamAvailability mid w)"

text \<open>
  \<^verbatim>\<open>workloadMap.get(member.id)\<close>: the \<^verbatim>\<open>Map\<close> keeps the last row of a user id.
\<close>

definition workloadOf :: "workload_row list \<Rightarrow> string \<Rightarrow> workload_row option" where
  "workloadOf workloadDistribution uid = find (\<lambda>r. userId r = uid) (rev workloadDistribution)"

definition withAvailability :: "workload_row list \<Rightarrow> user_with_mailbox_access \<Rightarrow> available_team_member" where
  "withAvailability workloadDistribution member =
     user_with_mailbox_access.extend member
       (available_team_member.fields
          (case workloadOf workloadDistribution (member_id member) of
             None \<Rightarrow> \<lparr>a_status = offline, a_currentWorkload = 0,
                       a_isAvailableForAssignment = False, a_customMessage = None\<rparr>
           | Some r \<Rightarrow> \<lparr>a_status = status r, a_currentWorkload = currentWorkload r,
                         a_isAvailableForAssignment = isAvailableForAssignment r,
                         a_customMessage = customMessage r\<rparr>))"

definition getAvailableTeamMembers ::
  "user_with_mailbox_access list \<Rightarrow> nat \<Rightarrow> world \<Rightarrow> available_team_member list" where
  "getAvailableTeamMembers teamMembers mid w =
     filter (\<lambda>member. a_isAvailableForAssignment (availability member))
            (map (withAvailability (getTeamWorkloadDistribution mid w)) teamMembers)"

subsection \<open>Expertise matching\<close>

text \<open>
  \<^verbatim>\<open>result.matches[member.id]\<close> reads a property of a plain object: for an id that is
  not a key of the answer it finds what the object inherits under that name, which is
  truthy for the names below and undefined for every other.
\<close>

definition objectPrototypeProperties :: "string list" where
  "objectPrototypeProperties =
     [''constructor'', ''hasOwnProperty'', ''isPrototypeOf'', ''propertyIsEnumerable'',
      ''toLocaleString'', ''toString'', ''valueOf'', ''__proto__'', ''__defineGetter__'',
      ''__defineSetter__'', ''__lookupGetter__'', ''__lookupSetter__'']"

definition matchesTruthy :: "ai_result \<Rightarrow> string \<Rightarrow> bool" where
  "matchesTruthy result key =
     (case map_of (matches result) key of
        Some b \<Rightarrow> b
      | None \<Rightarrow> key \<in> set objectPrototypeProperties)"

definition getExpertiseMatchingMembers ::
  "env \<Rightarrow> available_team_member list \<Rightarrow> string \<Rightarrow> nat
     \<Rightarrow> error + (available_team_member list \<times> ai_result option)" where
  "getExpertiseMatchingMembers e availableMembers conversationContent mailbox =
     (if conversationContent = [] \<or> availableMembers = [] then Inr ([], None)
      else
        let membersWithKeywords =
              filter (\<lambda>member. (role member = NON_CORE \<or> role member = CORE) \<and>
                                length (member_keywords member) > 0)
                     availableMembers
        in if membersWithKeywords = [] then Inr ([], None)
           else case runAIObjectQuery e mailbox membersWithKeywords conversationContent of
                  Inl err \<Rightarrow> Inl err
                | Inr result \<Rightarrow>
                    Inr (filter (\<lambda>member. matchesTruthy result (member_id member))
                                membersWithKeywords,
                         Some result))"

text \<open>\<^verbatim>\<open>Array.prototype.join\<close> with a separator.\<close>

fun joinWith :: "string \<Rightarrow> string list \<Rightarrow> string" where
  "joinWith sep [] = []"
| "joinWith sep [x] = x"
| "joinWith sep (x # y # ys) = x @ sep @ joinWith sep (y # ys)"

definition getConversationContent :: "conversation \<Rightarrow> string" where
  "getConversationContent conversationData =
     (if messages conversationData = []
      then (case subject conversationData of None \<Rightarrow> [] | Some s \<Rightarrow> s)
      else
        let userMessages =
              filter (\<lambda>t. t \<noteq> [])
                (map (\<lambda>msg. case cleanedUpText msg of None \<Rightarrow> [] | Some t \<Rightarrow> t)
                     (filter (\<lambda>msg. msg_role msg = ''user'') (messages conversationData)));
            contentParts =
              (case subject conversationData of
                 None \<Rightarrow> []
               | Some s \<Rightarrow> if s \<noteq> [] then [s] else []) @ userMessages
        in joinWith '' '' contentParts)"

subsection \<open>Choosing the assignee\<close>

record availability_metrics =
  totalAvailable :: nat
  onlineMembers :: nat
  busyMembers :: nat
  averageWorkload :: rat

record next_team_member =
  nt_member :: "available_team_member option"
  nt_aiResult :: "ai_result option"
  nt_error :: "string option"
  nt_availabilityMetrics :: "availability_metrics option"

definition getNextTeamMember ::
  "env \<Rightarrow> user_with_mailbox_access list \<Rightarrow> conversation \<Rightarrow> nat \<Rightarrow> world
     \<Rightarrow> error + (next_team_member \<times> world)" where
  "getNextTeamMember e teamMembers conv mailbox w =
     (let availableMembers = getAvailableTeamMembers teamMembers mailbox w
      in if availableMembers = []
         then Inr (\<lparr>nt_member = None, nt_aiResult = None,
                    nt_error = Some ''No team members available for assignment'',
                    nt_availabilityMetrics = None\<rparr>, w)
         else
           let considered = membersToConsider availableMembers;
               conversationContent = getConversationContent conv
           in case getExpertiseMatchingMembers e considered conversationContent mailbox of
                Inl err \<Rightarrow> Inl err
              | Inr (expertiseMatches, aiResult) \<Rightarrow>
                  (let (selectedMember, cache) =
                         selectBestMember considered expertiseMatches mailbox (roundRobinCache w)
                   in Inr (\<lparr>nt_member = selectedMember, nt_aiResult = aiResult, nt_error = None,
                            nt_availabilityMetrics =
                              Some \<lparr>totalAvailable = length availableMembers,
                                    onlineMembers =
                                      length (filter (\<lambda>m. a_status (availability m) = online)
                                                     availableMembers),
                                    busyMembers =
                                      length (filter (\<lambda>m. a_status (availability m) = busy)
                                                     availableMembers),
                                    averageWorkload =
                                      roundToDouble e
                                        (of_int (sum_list (map (\<lambda>m. a_currentWorkload (availability m))
                                                               availableMembers))
                                         / of_nat (length availableMembers))\<rparr>\<rparr>,
                           w\<lparr>roundRobinCache := cache\<rparr>)))"

subsection \<open>The assignment job\<close>

text \<open>
  Modelled from the spec: \<^verbatim>\<open>updateConversation\<close> is not among these sources; the spec
  has the item store set the assignee and append a note.
\<close>

definition updateConversation :: "nat \<Rightarrow> string \<Rightarrow> assignment_note \<Rightarrow> world \<Rightarrow> world" where
  "updateConversation cid assignee note w =
     w\<lparr>conversationsTbl :=
         map (\<lambda>c. if conv_id c = cid then c\<lparr>assignedToId := Some assignee\<rparr> else c)
             (conversationsTbl w),
       conversationNotes := conversationNotes w @ [(cid, note)]\<rparr>"

record assignment =
  assigneeRole :: user_role
  assigneeId :: string
  assigneeStatus :: availability_status
  assigneeWorkload :: int
  as_aiResult :: "ai_result option"
  as_availabilityMetrics :: "availability_metrics option"

text \<open>
  The object that the job returns: a skip with its message, details and metrics, or the
  assignment (its \<^verbatim>\<open>message\<close> repeats the conversation id and the assignee).
\<close>

datatype assign_result =
    Skipped string "string option" "availability_metrics option"
  | Assigned assignment

text \<open>
  The last step of \<^verbatim>\<open>autoAssignConversation\<close>, once a member is chosen: record the
  activity of the assignee, then set the assignee and write the note.
\<close>

definition commitAssignment ::
  "env \<Rightarrow> int \<Rightarrow> conversation \<Rightarrow> nat \<Rightarrow> next_team_member \<Rightarrow> available_team_member \<Rightarrow> world
     \<Rightarrow> (error + assign_result) \<times> world" where
  "commitAssignment e now conv mailbox next nextTeamMember w1 =
     (case recordUserActivity e now (member_id nextTeamMember) mailbox w1 of
        Inl err \<Rightarrow> (Inl err, w1)
      | Inr w2 \<Rightarrow>
          (Inr (Assigned
             \<lparr>assigneeRole = role nextTeamMember,
              assigneeId = member_id nextTeamMember,
              assigneeStatus = a_status (availability nextTeamMember),
              assigneeWorkload = a_currentWorkload (availability nextTeamMember),
              as_aiResult = nt_aiResult next,
              as_availabilityMetrics = nt_availabilityMetrics next\<rparr>),
           updateConversation (conv_id conv) (member_id nextTeamMember)
             (case nt_aiResult next of
                None \<Rightarrow>
                  AvailabilityAndWorkload (a_status (availability nextTeamMember))
                    (a_currentWorkload (availability nextTeamMember))
              | Some r \<Rightarrow>
                  if reasoning r \<noteq> [] then Reasoning (reasoning r)
                  else AvailabilityAndWorkload (a_status (availability nextTeamMember))
                         (a_currentWorkload (availability nextTeamMember)))
             w2))"

text \<open>
  \<^verbatim>\<open>autoAssignConversation\<close>: the result or the rejection, and the world that the call
  leaves behind in either case.
\<close>

definition autoAssignConversation ::
  "env \<Rightarrow> int \<Rightarrow> nat \<Rightarrow> world \<Rightarrow> (error + assign_result) \<times> world" where
  "autoAssignConversation e now conversationId w =
     (case find (\<lambda>c. conv_id c = conversationId) (conversationsTbl w) of
        None \<Rightarrow> (Inl NonRetriableError, w)
      | Some conv \<Rightarrow>
          if (case assignedToId conv of None \<Rightarrow> False | Some a \<Rightarrow> a \<noteq> [])
          then (Inr (Skipped ''Skipped: already assigned'' None None), w)
          else if (case mergedIntoId conv of None \<Rightarrow> False | Some m \<Rightarrow> m \<noteq> 0)
          then (Inr (Skipped ''Skipped: conversation is merged'' None None), w)
          else
            case getMailboxById e (conv_mailboxId conv) of
              None \<Rightarrow> (Inl NonRetriableError, w)
            | Some mailbox \<Rightarrow>
                (case getUsersWithMailboxAccess e mailbox of
                   None \<Rightarrow> (Inl NonRetriableError, w)
                 | Some teamMembers \<Rightarrow>
                     (let activeTeamMembers =
                            filter (\<lambda>member. role member = CORE \<or> role member = NON_CORE)
                                   teamMembers
                      in if activeTeamMembers = []
                         then (Inr (Skipped
                                 ''Skipped: no active team members available for assignment''
                                 None None), w)
                         else
                           case getNextTeamMember e activeTeamMembers conv mailbox w of
                             Inl err \<Rightarrow> (Inl err, w)
                           | Inr (next, w1) \<Rightarrow>
                               (case nt_member next of
                                  None \<Rightarrow>
                                    (Inr (Skipped
                                       ''Skipped: could not find suitable team member for assignment''
                                       (Some (case nt_error next of
                                                None \<Rightarrow> ''No available members with capacity or expertise match''
                                              | Some d \<Rightarrow> if d \<noteq> [] then d
                                                  else ''No available members with capacity or expertise match''))
                                       (nt_availabilityMetrics next)), w1)
                                | Some nextTeamMember \<Rightarrow>
                                    commitAssignment e now conv mailbox next nextTeamMember w1))))"

subsection \<open>The availability router\<close>

text \<open>
  The mutations of the router, on behalf of the user and mailbox of the request context.
  The inputs are the fields of the \<^verbatim>\<open>zod\<close> schemas; a rejection of the data layer is
  replaced by the router's own error.
\<close>

definition updateStatus ::
  "env \<Rightarrow> int \<Rightarrow> string \<Rightarrow> nat \<Rightarrow> availability_status \<Rightarrow> string option option \<Rightarrow> world
     \<Rightarrow> error + (user_availability_data \<times> world)" where
  "updateStatus e now uid mid st message w =
     (case updateUserAvailability e now uid mid
             (noUpdates\<lparr>u_status := Some st, u_customMessage := message,
                        u_changeReason := Some manual\<rparr>) w of
        Inl _ \<Rightarrow> Inl (TRPCError ''Failed to update availability status'')
      | Inr r \<Rightarrow> Inr r)"

definition setBusinessHours ::
  "env \<Rightarrow> int \<Rightarrow> string \<Rightarrow> nat \<Rightarrow> business_hours_config \<Rightarrow> world
     \<Rightarrow> error + (user_availability_data \<times> world)" where
  "setBusinessHours e now uid mid hours w =
     (case updateUserAvailability e now uid mid
             (noUpdates\<lparr>u_businessHours := Some (Some hours), u_changeReason := Some manual\<rparr>) w of
        Inl _ \<Rightarrow> Inl (TRPCError ''Failed to update business hours'')
      | Inr r \<Rightarrow> Inr r)"

definition setScheduledReturn ::
  "env \<Rightarrow> int \<Rightarrow> string \<Rightarrow> nat \<Rightarrow> int \<Rightarrow> string option \<Rightarrow> world
     \<Rightarrow> error + (user_availability_data \<times> world)" where
  "setScheduledReturn e now uid mid returnAt message w =
     (case updateUserAvailability e now uid mid
             (noUpdates\<lparr>u_status := Some away, u_scheduledReturnAt := Some (Some returnAt),
                        u_customMessage :=
                          Some (case message of None \<Rightarrow> None
                                | Some m \<Rightarrow> if m \<noteq> [] then Some m else None),
                        u_changeReason := Some manual\<rparr>) w of
        Inl _ \<Rightarrow> Inl (TRPCError ''Failed to set scheduled return'')
      | Inr r \<Rightarrow> Inr r)"

text \<open>
  Every entry point that writes: the four mutations of the router, the sweep and the
  assignment job. \<open>perform\<close> gives the world that the operation leaves behind.
\<close>

datatype operation =
    UpdateStatus string nat availability_status "string option option"
  | RecordActivity string nat
  | SetBusinessHours string nat business_hours_config
  | SetScheduledReturn string nat int "string option"
  | ProcessScheduledStatusChanges
  | AutoAssignConversation nat

definition worldAfter :: "world \<Rightarrow> error + ('a \<times> world) \<Rightarrow> world" where
  "worldAfter w r = (case r of Inl _ \<Rightarrow> w | Inr (_, w') \<Rightarrow> w')"

fun perform :: "env \<Rightarrow> int \<Rightarrow> operation \<Rightarrow> world \<Rightarrow> world" where
  "perform e now (UpdateStatus uid mid st message) w =
     worldAfter w (updateStatus e now uid mid st message w)"
| "perform e now (RecordActivity uid mid) w =
     (case recordUserActivity e now uid mid w of Inl _ \<Rightarrow> w | Inr w' \<Rightarrow> w')"
| "perform e now (SetBusinessHours uid mid hours) w =
     worldAfter w (setBusinessHours e now uid mid hours w)"
| "perform e now (SetScheduledReturn uid mid returnAt message) w =
     worldAfter w (setScheduledReturn e now uid mid returnAt message w)"
| "perform e now ProcessScheduledStatusChanges w = fst (processScheduledStatusChanges e now w)"
| "perform e now (AutoAssignConversation cid) w = snd (autoAssignConversation e now cid w)"

text \<open>A run: operations with the clock reading of each, in order.\<close>

fun performAll :: "env \<Rightarrow> (int \<times> operation) list \<Rightarrow> world \<Rightarrow> world" where
  "performAll e [] w = w"
| "performAll e ((now, op) # ops) w = performAll e ops (perform e now op w)"

subsection \<open>The auto-away deadline of a user\<close>

text \<open>No row of the user in the mailbox has an \<^verbatim>\<open>autoAwayAt\<close> deadline.\<close>

definition autoAwayUnarmed :: "string \<Rightarrow> nat \<Rightarrow> world \<Rightarrow> bool" where
  "autoAwayUnarmed uid mid w =
     list_all (\<lambda>r. userId r = uid \<and> mailboxId r = mid \<longrightarrow> autoAwayAt r = None)
              (userAvailabilityTbl w)"

subsection \<open>The durations of the history\<close>


section \<open>Example data\<close>

text \<open>A roster member with the given id, role, status and workload, and no keywords.\<close>

definition exampleMember ::
  "string \<Rightarrow> user_role \<Rightarrow> availability_status \<Rightarrow> int \<Rightarrow> available_team_member" where
  "exampleMember i r s n =
     \<lparr>member_id = i, displayName = i, role = r, member_keywords = [],
      availability = \<lparr>a_status = s, a_currentWorkload = n, a_isAvailableForAssignment = True,
                      a_customMessage = None\<rparr>\<rparr>"

definition exampleUser :: "string \<Rightarrow> user_role \<Rightarrow> string list \<Rightarrow> user_with_mailbox_access" where
  "exampleUser i r ks = \<lparr>member_id = i, displayName = i, role = r, member_keywords = ks\<rparr>"

text \<open>An availability row with no message, timers or business hours.\<close>

definition exampleRow :: "string \<Rightarrow> nat \<Rightarrow> availability_status \<Rightarrow> int \<Rightarrow> user_availability_data" where
  "exampleRow uid mid s t =
     \<lparr>userId = uid, mailboxId = mid, status = s, customMessage = None, lastActivityAt = t,
      lastStatusChangeAt = t, autoAwayAt = None, scheduledReturnAt = None, businessHours = None\<rparr>"

definition exampleHistoryRow :: "nat \<Rightarrow> int option \<Rightarrow> int \<Rightarrow> availability_history_row" where
  "exampleHistoryRow mid d t =
     \<lparr>h_userId = ''u1'', h_mailboxId = mid, fromStatus = online, toStatus = away,
      durationSeconds = d, changeReason = Some manual, sessionData = None, createdAt = t\<rparr>"

text \<open>An open conversation with a subject and no messages.\<close>

definition exampleConversation :: "nat \<Rightarrow> nat \<Rightarrow> string option \<Rightarrow> nat option \<Rightarrow> conversation" where
  "exampleConversation cid mid assignee merged =
     \<lparr>conv_id = cid, conv_mailboxId = mid, conv_status = ''open'', assignedToId = assignee,
      mergedIntoId = merged, subject = Some ''refund please'', messages = []\<rparr>"

definition emptyWorld :: world where
  "emptyWorld = \<lparr>userAvailabilityTbl = [], availabilityHistoryTbl = [], conversationsTbl = [],
     conversationNotes = [], roundRobinCache = Map.empty, realtimeEvents = []\<rparr>"

text \<open>
  Collaborators with one fixed behaviour: every publish fulfilled or every publish
  rejected, one answer of the expertise query, every mailbox found, one team. The
  numbers of the examples are doubles, which the rounding leaves as they are, and the
  clock advances by one millisecond from a reading to the next.
\<close>

definition exampleEnv :: "bool \<Rightarrow> (error + ai_result) \<Rightarrow> user_with_mailbox_access list \<Rightarrow> env" where
  "exampleEnv delivered answer team =
     \<lparr>publishToRealtime = (\<lambda>_ _. delivered), runAIObjectQuery = (\<lambda>_ _ _. answer),
      getMailboxById = (\<lambda>m. Some m), getUsersWithMailboxAccess = (\<lambda>_. Some team),
      roundToDouble = (\<lambda>x. x), laterReadings = (\<lambda>now k. now + 1 + int k)\<rparr>"

definition skipEnv :: env where
  "skipEnv = exampleEnv True (Inl NonRetriableError) [exampleUser ''zed'' OTHER_ROLE []]"

definition matcherDownEnv :: env where
  "matcherDownEnv =
     exampleEnv True (Inl (AIQueryError ''unavailable'')) [exampleUser ''ann'' CORE [''refund'']]"

definition matcherDownWorld :: world where
  "matcherDownWorld =
     emptyWorld\<lparr>userAvailabilityTbl := [exampleRow ''ann'' 1 online 1000],
                conversationsTbl := [exampleConversation 7 1 None None]\<rparr>"

definition publishDownEnv :: env where
  "publishDownEnv = exampleEnv False (Inl NonRetriableError) []"

definition onlineWorld :: world where
  "onlineWorld = emptyWorld\<lparr>userAvailabilityTbl := [exampleRow ''u1'' 1 online 1000]\<rparr>"

text \<open>Collaborators that never fail to publish.\<close>

definition okEnv :: env where
  "okEnv = exampleEnv True (Inl NonRetriableError) []"




text \<open>
  A team of two without keywords. In the first world ann is online with eight open
  conversations and bob is busy with none; in the second bob alone has a row, busy with
  three open conversations.
\<close>

definition gateTeam :: "user_with_mailbox_access list" where
  "gateTeam = [exampleUser ''ann'' CORE [], exampleUser ''bob'' NON_CORE []]"

definition gateEnv :: env where
  "gateEnv = exampleEnv True (Inl NonRetriableError) gateTeam"

definition gateWorld :: world where
  "gateWorld =
     emptyWorld\<lparr>userAvailabilityTbl := [exampleRow ''ann'' 1 online 1000, exampleRow ''bob'' 1 busy 1000],
                conversationsTbl := map (\<lambda>cid. exampleConversation cid 1 (Some ''ann'') None)
                                        [1, 2, 3, 4, 5, 6, 7, 8]\<rparr>"

definition fallbackWorld :: world where
  "fallbackWorld =
     emptyWorld\<lparr>userAvailabilityTbl := [exampleRow ''bob'' 1 busy 1000],
                conversationsTbl := map (\<lambda>cid. exampleConversation cid 1 (Some ''bob'') None)
                                        [1, 2, 3]\<rparr>"

section \<open>Properties of scoring and selection\<close>

text \<open>The definitions that the evaluation of an example unfolds.\<close>

lemmas assignment_defs = autoAssignConversation_def commitAssignment_def getNextTeamMember_def
  getAvailableTeamMembers_def getTeamWorkloadDistribution_def getAllTeamAvailability_def
  withAvailability_def workloadOf_def openConversationCount_def getExpertiseMatchingMembers_def
  getConversationContent_def membersToConsider_def canHandleWorkload_def WORKLOAD_THRESHOLDS_def
  user_availability_data.defs workload_row.defs user_with_mailbox_access.defs
  available_team_member.defs

lemma set_insertBy: "set (insertBy cmp x ys) = insert x (set ys)"
  by (induction ys) auto

lemma set_sortBy: "set (sortBy cmp xs) = set xs"
  unfolding sortBy_def by (induction xs) (auto simp: set_insertBy)

lemma set_membersWithScores: "sm_member ` set (membersWithScores ms em) = set ms"
  unfolding membersWithScores_def set_sortBy by (auto simp: image_iff)

lemma topCandidates_nonempty:
  assumes "ms \<noteq> []"
  shows "topCandidates ms em \<noteq> []"
proof -
  have "set (membersWithScores ms em) \<noteq> {}"
    using assms set_membersWithScores [of ms em] by auto
  then obtain first rest where "membersWithScores ms em = first # rest"
    by (cases "membersWithScores ms em") auto
  then show ?thesis
    by (simp add: topCandidates_def)
qed

lemma topCandidates_subset: "sm_member ` set (topCandidates ms em) \<subseteq> set ms"
proof -
  have "set (topCandidates ms em) \<subseteq> set (membersWithScores ms em)"
    by (auto simp: topCandidates_def Let_def split: list.splits)
  then show ?thesis
    using set_membersWithScores [of ms em] by blast
qed

text \<open>A non-empty candidate list always yields one of its members.\<close>

lemma selectBestMember_some:
  assumes "ms \<noteq> []"
  shows "\<exists>m \<in> set ms. fst (selectBestMember ms em mid cache) = Some m"
proof -
  let ?top = "topCandidates ms em"
  have "?top \<noteq> []" using assms by (rule topCandidates_nonempty)
  then have len: "0 < length ?top" by simp
  have mem: "\<And>i. i < length ?top \<Longrightarrow> sm_member (?top ! i) \<in> set ms"
    using topCandidates_subset [of ms em] nth_mem by blast
  show ?thesis
  proof (cases "length ?top = 1")
    case True
    then show ?thesis using assms mem [of 0] by (simp add: selectBestMember_def)
  next
    case False
    let ?n = "((case cache mid of None \<Rightarrow> 0 | Some i \<Rightarrow> i) + 1) mod length ?top"
    have "?n < length ?top" using len by simp
    then show ?thesis using assms False mem [of ?n]
      by (simp add: selectBestMember_def Let_def)
  qed
qed

lemma score_online_workload_2:
  assumes "a_status (availability a) = online" "a_currentWorkload (availability a) = 2"
  shows "90 \<le> calculateMemberScore a x"
  using assms by (simp add: calculateMemberScore_def PRIORITY_SCORES_def Let_def)

lemma score_busy_workload_0:
  assumes "a_status (availability b) = busy" "a_currentWorkload (availability b) = 0"
  shows "calculateMemberScore b x \<le> 85"
  using assms by (simp add: calculateMemberScore_def PRIORITY_SCORES_def Let_def)

lemma select_online_over_busy:
  assumes "a_status (availability a) = online" "a_currentWorkload (availability a) = 2"
    and "a_status (availability b) = busy" "a_currentWorkload (availability b) = 0"
  shows "selectBestMember [a, b] em mid cache = (Some a, cache)"
    and "selectBestMember [b, a] em mid cache = (Some a, cache)"
proof -
  have lt: "calculateMemberScore b (b \<in> set em) < calculateMemberScore a (a \<in> set em)"
    using score_online_workload_2 [OF assms(1,2), of "a \<in> set em"]
      score_busy_workload_0 [OF assms(3,4), of "b \<in> set em"]
    by linarith
  show "selectBestMember [a, b] em mid cache = (Some a, cache)"
    using lt by (simp add: selectBestMember_def topCandidates_def membersWithScores_def
        sortBy_def compareScored_def Let_def)
  show "selectBestMember [b, a] em mid cache = (Some a, cache)"
    using lt by (simp add: selectBestMember_def topCandidates_def membersWithScores_def
        sortBy_def compareScored_def Let_def)
qed

lemma membersToConsider_fallback:
  "membersToConsider ms =
     (if filter canHandleWorkload ms = [] then ms else filter canHandleWorkload ms)"
  by (simp add: membersToConsider_def Let_def)

text \<open>
  The choice of the next team member, when it completes with somebody available, is the
  selection among the members considered, and it writes at most the cursor.
\<close>

lemma getNextTeamMember_result:
  assumes "getAvailableTeamMembers teamMembers mid w \<noteq> []"
    and "getNextTeamMember e teamMembers conv mid w = Inr (chosen, w1)"
  shows "\<exists>em. nt_member chosen =
                fst (selectBestMember (membersToConsider (getAvailableTeamMembers teamMembers mid w))
                       em mid (roundRobinCache w))
            \<and> w1 = w\<lparr>roundRobinCache :=
                       snd (selectBestMember
                              (membersToConsider (getAvailableTeamMembers teamMembers mid w))
                              em mid (roundRobinCache w))\<rparr>"
proof (cases "getExpertiseMatchingMembers e
                (membersToConsider (getAvailableTeamMembers teamMembers mid w))
                (getConversationContent conv) mid")
  case (Inl err)
  with assms show ?thesis by (simp add: getNextTeamMember_def Let_def)
next
  case (Inr p)
  obtain em ai where p: "p = (em, ai)" by (cases p)
  from assms Inr p have
    "nt_member chosen =
       fst (selectBestMember (membersToConsider (getAvailableTeamMembers teamMembers mid w))
              em mid (roundRobinCache w))"
    "w1 = w\<lparr>roundRobinCache :=
             snd (selectBestMember (membersToConsider (getAvailableTeamMembers teamMembers mid w))
                    em mid (roundRobinCache w))\<rparr>"
    by (auto simp: getNextTeamMember_def Let_def split_beta)
  then show ?thesis by blast
qed

lemma getNextTeamMember_online_over_busy:
  assumes "a_status (availability a) = online" "a_currentWorkload (availability a) = 2"
    and "a_status (availability b) = busy" "a_currentWorkload (availability b) = 0"
    and "getAvailableTeamMembers teamMembers mid w = [a, b]
         \<or> getAvailableTeamMembers teamMembers mid w = [b, a]"
    and "getNextTeamMember e teamMembers conv mid w = Inr (chosen, w1)"
  shows "nt_member chosen = Some a \<and> w1 = w\<lparr>roundRobinCache := roundRobinCache w\<rparr>"
proof -
  have ca: "canHandleWorkload a" and cb: "canHandleWorkload b"
    using assms(1-4) by (simp_all add: canHandleWorkload_def WORKLOAD_THRESHOLDS_def)
  have sel: "selectBestMember (membersToConsider (getAvailableTeamMembers teamMembers mid w))
               em mid (roundRobinCache w) = (Some a, roundRobinCache w)" for em
    using assms(5) ca cb select_online_over_busy [OF assms(1-4), of em mid "roundRobinCache w"]
    by (auto simp: membersToConsider_fallback)
  let ?considered = "membersToConsider (getAvailableTeamMembers teamMembers mid w)"
  have "getAvailableTeamMembers teamMembers mid w \<noteq> []" using assms(5) by auto
  from getNextTeamMember_result [OF this assms(6)] obtain em where
    "nt_member chosen = fst (selectBestMember ?considered em mid (roundRobinCache w))"
    "w1 = w\<lparr>roundRobinCache := snd (selectBestMember ?considered em mid (roundRobinCache w))\<rparr>"
    by blast
  then show ?thesis by (simp add: sel)
qed

text \<open>
  Claim C6. The score of a candidate is
  \<open>max 0 (priority status - min (workload * 5) 50 + (25 if matched) + (10 if core))\<close> with
  priorities online 100, busy 50, away 0, offline 0. An online candidate with workload 2
  (no bonus) scores 90, a busy candidate with workload 0 (no bonus) scores 50, and of
  these two the selection returns the online one, in either order of the list, whatever
  the bonuses and the cursor, and leaves the cursor as it was; so does the choice of the
  next team member when these two are the available members.
\<close>

theorem score_formula_and_online_preferred:
  "calculateMemberScore m matched =
     max 0 (PRIORITY_SCORES (a_status (availability m))
            - min (a_currentWorkload (availability m) * 5) 50
            + (if matched then 25 else 0) + (if role m = CORE then 10 else 0))
   \<and> PRIORITY_SCORES online = 100 \<and> PRIORITY_SCORES busy = 50
   \<and> PRIORITY_SCORES away = 0 \<and> PRIORITY_SCORES offline = 0
   \<and> (a_status (availability a) = online \<and> a_currentWorkload (availability a) = 2
        \<and> a_status (availability b) = busy \<and> a_currentWorkload (availability b) = 0
      \<longrightarrow> (role a \<noteq> CORE \<longrightarrow> calculateMemberScore a False = 90)
          \<and> (role b \<noteq> CORE \<longrightarrow> calculateMemberScore b False = 50)
          \<and> selectBestMember [a, b] expertiseMatches mid cache = (Some a, cache)
          \<and> selectBestMember [b, a] expertiseMatches mid cache = (Some a, cache)
          \<and> ((getAvailableTeamMembers teamMembers mid w = [a, b]
                \<or> getAvailableTeamMembers teamMembers mid w = [b, a])
               \<and> getNextTeamMember e teamMembers conv mid w = Inr (next, w1)
              \<longrightarrow> nt_member next = Some a \<and> roundRobinCache w1 = roundRobinCache w))"
proof -
  have f: "calculateMemberScore m matched =
     max 0 (PRIORITY_SCORES (a_status (availability m))
            - min (a_currentWorkload (availability m) * 5) 50
            + (if matched then 25 else 0) + (if role m = CORE then 10 else 0))"
    by (simp add: calculateMemberScore_def Let_def)
  have p: "PRIORITY_SCORES online = 100 \<and> PRIORITY_SCORES busy = 50
        \<and> PRIORITY_SCORES away = 0 \<and> PRIORITY_SCORES offline = 0"
    by (simp add: PRIORITY_SCORES_def)
  have s: "(role a \<noteq> CORE \<longrightarrow> calculateMemberScore a False = 90)
          \<and> (role b \<noteq> CORE \<longrightarrow> calculateMemberScore b False = 50)
          \<and> selectBestMember [a, b] expertiseMatches mid cache = (Some a, cache)
          \<and> selectBestMember [b, a] expertiseMatches mid cache = (Some a, cache)
          \<and> ((getAvailableTeamMembers teamMembers mid w = [a, b]
                \<or> getAvailableTeamMembers teamMembers mid w = [b, a])
               \<and> getNextTeamMember e teamMembers conv mid w = Inr (next, w1)
              \<longrightarrow> nt_member next = Some a \<and> roundRobinCache w1 = roundRobinCache w)"
    if h: "a_status (availability a) = online" "a_currentWorkload (availability a) = 2"
        "a_status (availability b) = busy" "a_currentWorkload (availability b) = 0"
  proof -
    have "role a \<noteq> CORE \<longrightarrow> calculateMemberScore a False = 90"
      using h by (simp add: calculateMemberScore_def PRIORITY_SCORES_def Let_def)
    moreover have "role b \<noteq> CORE \<longrightarrow> calculateMemberScore b False = 50"
      using h by (simp add: calculateMemberScore_def PRIORITY_SCORES_def Let_def)
    moreover have "nt_member next = Some a \<and> roundRobinCache w1 = roundRobinCache w"
      if "getAvailableTeamMembers teamMembers mid w = [a, b]
          \<or> getAvailableTeamMembers teamMembers mid w = [b, a]"
        "getNextTeamMember e teamMembers conv mid w = Inr (next, w1)"
      using getNextTeamMember_online_over_busy [OF h that] by simp
    ultimately show ?thesis
      using select_online_over_busy [OF h] by blast
  qed
  show ?thesis using f p s by blast
qed

theorem score_formula_and_online_preferred_witness:
  "a_status (availability (exampleMember ''ann'' NON_CORE online 2)) = online
   \<and> a_currentWorkload (availability (exampleMember ''ann'' NON_CORE online 2)) = 2
   \<and> a_status (availability (exampleMember ''bob'' NON_CORE busy 0)) = busy
   \<and> a_currentWorkload (availability (exampleMember ''bob'' NON_CORE busy 0)) = 0
   \<and> role (exampleMember ''ann'' NON_CORE online 2) \<noteq> CORE
   \<and> role (exampleMember ''bob'' NON_CORE busy 0) \<noteq> CORE
   \<and> calculateMemberScore (exampleMember ''ann'' NON_CORE online 2) False = 90
   \<and> calculateMemberScore (exampleMember ''bob'' NON_CORE busy 0) False = 50
   \<and> selectBestMember
        [exampleMember ''bob'' NON_CORE busy 0, exampleMember ''ann'' NON_CORE online 2]
        [] 1 Map.empty
       = (Some (exampleMember ''ann'' NON_CORE online 2), Map.empty)"
proof -
  let ?a = "exampleMember ''ann'' NON_CORE online 2"
  let ?b = "exampleMember ''bob'' NON_CORE busy 0"
  have h: "a_status (availability ?a) = online \<and> a_currentWorkload (availability ?a) = 2
      \<and> a_status (availability ?b) = busy \<and> a_currentWorkload (availability ?b) = 0
      \<and> role ?a \<noteq> CORE \<and> role ?b \<noteq> CORE"
    by (simp add: exampleMember_def)
  from score_formula_and_online_preferred [of ?a False ?a ?b "[]" 1 Map.empty] h
  show ?thesis by blast
qed

text \<open>With somebody available, a completed choice names one of the available members.\<close>

lemma getNextTeamMember_selects:
  assumes "getAvailableTeamMembers teamMembers mid w \<noteq> []"
    and "getNextTeamMember e teamMembers conv mid w = Inr (chosen, w1)"
  shows "\<exists>m \<in> set (getAvailableTeamMembers teamMembers mid w). nt_member chosen = Some m"
proof -
  let ?available = "getAvailableTeamMembers teamMembers mid w"
  let ?considered = "membersToConsider ?available"
  from assms obtain em ai where
    "getExpertiseMatchingMembers e ?considered (getConversationContent conv) mid = Inr (em, ai)"
    and c: "nt_member chosen = fst (selectBestMember ?considered em mid (roundRobinCache w))"
    by (auto simp: getNextTeamMember_def Let_def split: sum.splits prod.splits)
  have ne: "?considered \<noteq> []" using assms(1) by (simp add: membersToConsider_fallback)
  have sub: "set ?considered \<subseteq> set ?available" by (auto simp: membersToConsider_fallback)
  from selectBestMember_some [OF ne, of em mid "roundRobinCache w"] sub c show ?thesis
    by auto
qed

text \<open>The choice of the next team member, with somebody available, in one equation.\<close>

lemma getNextTeamMember_available:
  assumes "getAvailableTeamMembers teamMembers mid w \<noteq> []"
  shows "getNextTeamMember e teamMembers conv mid w =
           (case getExpertiseMatchingMembers e
                   (membersToConsider (getAvailableTeamMembers teamMembers mid w))
                   (getConversationContent conv) mid of
              Inl err \<Rightarrow> Inl err
            | Inr (em, ai) \<Rightarrow>
                Inr (\<lparr>nt_member =
                        fst (selectBestMember
                               (membersToConsider (getAvailableTeamMembers teamMembers mid w))
                               em mid (roundRobinCache w)),
                      nt_aiResult = ai, nt_error = None,
                      nt_availabilityMetrics =
                        Some \<lparr>totalAvailable = length (getAvailableTeamMembers teamMembers mid w),
                              onlineMembers =
                                length (filter (\<lambda>m. a_status (availability m) = online)
                                               (getAvailableTeamMembers teamMembers mid w)),
                              busyMembers =
                                length (filter (\<lambda>m. a_status (availability m) = busy)
                                               (getAvailableTeamMembers teamMembers mid w)),
                              averageWorkload =
                                roundToDouble e
                                  (of_int (sum_list (map (\<lambda>m. a_currentWorkload (availability m))
                                                         (getAvailableTeamMembers teamMembers mid w)))
                                   / of_nat (length (getAvailableTeamMembers teamMembers mid w)))\<rparr>\<rparr>,
                     w\<lparr>roundRobinCache :=
                         snd (selectBestMember
                                (membersToConsider (getAvailableTeamMembers teamMembers mid w))
                                em mid (roundRobinCache w))\<rparr>))"
  using assms by (simp add: getNextTeamMember_def Let_def split_beta split: sum.splits)

lemma set_membersToConsider:
  "set (membersToConsider ms) =
     (if \<exists>x \<in> set ms. canHandleWorkload x then {x \<in> set ms. canHandleWorkload x} else set ms)"
  by (auto simp: membersToConsider_fallback filter_empty_conv)

lemma selectBestMember_single: "selectBestMember [b] em mid cache = (Some b, cache)"
  by (simp add: selectBestMember_def topCandidates_def membersWithScores_def sortBy_def Let_def)

text \<open>
  With somebody available and the matching step completed, the member chosen is one of
  the members considered: one who passes the gate whenever somebody does.
\<close>

lemma getNextTeamMember_gated:
  assumes "getAvailableTeamMembers teamMembers mid w \<noteq> []"
    and "getExpertiseMatchingMembers e
           (membersToConsider (getAvailableTeamMembers teamMembers mid w))
           (getConversationContent conv) mid = Inr (em, ai)"
  shows "\<exists>chosen \<in> set (membersToConsider (getAvailableTeamMembers teamMembers mid w)). \<exists>next.
           getNextTeamMember e teamMembers conv mid w =
             Inr (next, w\<lparr>roundRobinCache :=
                            snd (selectBestMember
                                   (membersToConsider (getAvailableTeamMembers teamMembers mid w))
                                   em mid (roundRobinCache w))\<rparr>)
           \<and> nt_member next = Some chosen \<and> nt_error next = None \<and> nt_aiResult next = ai
           \<and> chosen \<in> set (getAvailableTeamMembers teamMembers mid w)
           \<and> ((\<exists>x \<in> set (getAvailableTeamMembers teamMembers mid w). canHandleWorkload x)
                \<longrightarrow> canHandleWorkload chosen)"
proof -
  let ?available = "getAvailableTeamMembers teamMembers mid w"
  let ?considered = "membersToConsider ?available"
  have ne: "?considered \<noteq> []" using assms(1) by (simp add: membersToConsider_fallback)
  from selectBestMember_some [OF ne, of em mid "roundRobinCache w"] obtain chosen where
    c: "chosen \<in> set ?considered"
    and s: "fst (selectBestMember ?considered em mid (roundRobinCache w)) = Some chosen"
    by blast
  have a: "chosen \<in> set ?available"
    using c by (auto simp: set_membersToConsider split: if_splits)
  have g: "(\<exists>x \<in> set ?available. canHandleWorkload x) \<longrightarrow> canHandleWorkload chosen"
    using c by (auto simp: set_membersToConsider split: if_splits)
  show ?thesis
    unfolding getNextTeamMember_available [OF assms(1)] assms(2)
    using c s a g by (intro bexI [of _ chosen]) auto
qed

text \<open>
  Claim C7. The workload gate keeps exactly the candidates whose workload is strictly
  below the threshold of their status (online 8, busy 3, away 0, offline 0); when nobody
  passes, the full available list is considered instead, so a non-empty list always
  yields an assignee. In the choice of the next team member, with somebody available:
  the members considered are those who pass the gate, or all the available members when
  none passes; a rejection of the matching step is the outcome of the choice; and when
  the matching step completes the choice completes, it names a member considered, one
  who passes the gate whenever an available member does, and it writes the cursor only.
  A busy member at workload 3 fails the gate, is not considered when an available member
  passes it, is considered when none does, and is the one chosen when it is the only
  available member.
\<close>

theorem workload_gate_with_fallback:
  "canHandleWorkload m =
     (a_currentWorkload (availability m) <
        (case a_status (availability m) of online \<Rightarrow> 8 | busy \<Rightarrow> 3 | away \<Rightarrow> 0 | offline \<Rightarrow> 0))
   \<and> membersToConsider ms =
       (if filter canHandleWorkload ms = [] then ms else filter canHandleWorkload ms)
   \<and> (ms \<noteq> [] \<longrightarrow>
        membersToConsider ms \<noteq> [] \<and>
        (\<exists>chosen \<in> set ms.
           fst (selectBestMember (membersToConsider ms) expertiseMatches mid cache) = Some chosen))
   \<and> (a_status (availability b) = busy \<and> a_currentWorkload (availability b) = 3 \<longrightarrow>
        \<not> canHandleWorkload b
        \<and> (b \<in> set ms \<and> (\<forall>x \<in> set ms. \<not> canHandleWorkload x) \<longrightarrow> b \<in> set (membersToConsider ms))
        \<and> selectBestMember (membersToConsider [b]) expertiseMatches mid cache = (Some b, cache))
   \<and> (getAvailableTeamMembers teamMembers mid w \<noteq> []
        \<and> getNextTeamMember e teamMembers conv mid w = Inr (next, w1) \<longrightarrow>
        (\<exists>chosen \<in> set (getAvailableTeamMembers teamMembers mid w). nt_member next = Some chosen))
   \<and> (let available = getAvailableTeamMembers teamMembers mid w;
          considered = membersToConsider available;
          matching = getExpertiseMatchingMembers e considered (getConversationContent conv) mid
      in available \<noteq> [] \<longrightarrow>
           set considered =
             (if \<exists>x \<in> set available. canHandleWorkload x
              then {x \<in> set available. canHandleWorkload x} else set available)
           \<and> (\<forall>err. matching = Inl err \<longrightarrow>
                 getNextTeamMember e teamMembers conv mid w = Inl err)
           \<and> (\<forall>em ai. matching = Inr (em, ai) \<longrightarrow>
                 (\<exists>chosen \<in> set considered. \<exists>selected.
                    getNextTeamMember e teamMembers conv mid w =
                      Inr (selected,
                           w\<lparr>roundRobinCache :=
                               snd (selectBestMember considered em mid (roundRobinCache w))\<rparr>)
                    \<and> nt_member selected = Some chosen \<and> nt_error selected = None
                    \<and> nt_aiResult selected = ai
                    \<and> chosen \<in> set available
                    \<and> ((\<exists>x \<in> set available. canHandleWorkload x) \<longrightarrow> canHandleWorkload chosen)))
           \<and> (\<forall>c \<in> set available.
                 a_status (availability c) = busy \<and> a_currentWorkload (availability c) = 3 \<longrightarrow>
                 \<not> canHandleWorkload c
                 \<and> ((\<exists>x \<in> set available. canHandleWorkload x) \<longrightarrow> c \<notin> set considered)
                 \<and> ((\<forall>x \<in> set available. \<not> canHandleWorkload x) \<longrightarrow> c \<in> set considered)
                 \<and> (available = [c] \<longrightarrow>
                      (\<forall>em ai. matching = Inr (em, ai) \<longrightarrow>
                         (\<exists>selected. getNextTeamMember e teamMembers conv mid w = Inr (selected, w)
                                     \<and> nt_member selected = Some c)))))"
proof -
  have gate: "canHandleWorkload m =
     (a_currentWorkload (availability m) <
        (case a_status (availability m) of online \<Rightarrow> 8 | busy \<Rightarrow> 3 | away \<Rightarrow> 0 | offline \<Rightarrow> 0))"
    by (simp add: canHandleWorkload_def WORKLOAD_THRESHOLDS_def)
  have fallback: "membersToConsider ms =
       (if filter canHandleWorkload ms = [] then ms else filter canHandleWorkload ms)"
    by (rule membersToConsider_fallback)
  have never_blocked: "membersToConsider ms \<noteq> [] \<and>
        (\<exists>chosen \<in> set ms.
           fst (selectBestMember (membersToConsider ms) expertiseMatches mid cache) = Some chosen)"
    if ne: "ms \<noteq> []"
  proof -
    have c: "membersToConsider ms \<noteq> []" using ne by (simp add: membersToConsider_fallback)
    have sub: "set (membersToConsider ms) \<subseteq> set ms" by (auto simp: membersToConsider_fallback)
    from selectBestMember_some [OF c, of expertiseMatches mid cache] sub c show ?thesis by blast
  qed
  have busy3: "\<not> canHandleWorkload b
        \<and> (b \<in> set ms \<and> (\<forall>x \<in> set ms. \<not> canHandleWorkload x) \<longrightarrow> b \<in> set (membersToConsider ms))
        \<and> selectBestMember (membersToConsider [b]) expertiseMatches mid cache = (Some b, cache)"
    if h: "a_status (availability b) = busy" "a_currentWorkload (availability b) = 3"
  proof -
    have n: "\<not> canHandleWorkload b"
      using h by (simp add: canHandleWorkload_def WORKLOAD_THRESHOLDS_def)
    have f: "b \<in> set ms \<and> (\<forall>x \<in> set ms. \<not> canHandleWorkload x) \<longrightarrow> b \<in> set (membersToConsider ms)"
      by (simp add: membersToConsider_fallback filter_empty_conv)
    have one: "membersToConsider [b] = [b]" using n by (simp add: membersToConsider_fallback)
    have "selectBestMember [b] expertiseMatches mid cache = (Some b, cache)"
      by (rule selectBestMember_single)
    with n f one show ?thesis by simp
  qed
  have engine: "\<exists>chosen \<in> set (getAvailableTeamMembers teamMembers mid w). nt_member next = Some chosen"
    if "getAvailableTeamMembers teamMembers mid w \<noteq> []"
      "getNextTeamMember e teamMembers conv mid w = Inr (next, w1)"
    using that by (rule getNextTeamMember_selects)
  let ?available = "getAvailableTeamMembers teamMembers mid w"
  let ?considered = "membersToConsider ?available"
  let ?matching = "getExpertiseMatchingMembers e ?considered (getConversationContent conv) mid"
  have considered: "set ?considered =
             (if \<exists>x \<in> set ?available. canHandleWorkload x
              then {x \<in> set ?available. canHandleWorkload x} else set ?available)"
    by (rule set_membersToConsider)
  have rejected: "getNextTeamMember e teamMembers conv mid w = Inl err"
    if "?available \<noteq> []" "?matching = Inl err" for err
    using that by (simp add: getNextTeamMember_available)
  have chosen: "\<exists>chosen \<in> set ?considered. \<exists>selected.
                    getNextTeamMember e teamMembers conv mid w =
                      Inr (selected,
                           w\<lparr>roundRobinCache :=
                               snd (selectBestMember ?considered em mid (roundRobinCache w))\<rparr>)
                    \<and> nt_member selected = Some chosen \<and> nt_error selected = None
                    \<and> nt_aiResult selected = ai
                    \<and> chosen \<in> set ?available
                    \<and> ((\<exists>x \<in> set ?available. canHandleWorkload x) \<longrightarrow> canHandleWorkload chosen)"
    if "?available \<noteq> []" "?matching = Inr (em, ai)" for em ai
    using that by (rule getNextTeamMember_gated)
  have busy3_engine: "\<not> canHandleWorkload c
                 \<and> ((\<exists>x \<in> set ?available. canHandleWorkload x) \<longrightarrow> c \<notin> set ?considered)
                 \<and> ((\<forall>x \<in> set ?available. \<not> canHandleWorkload x) \<longrightarrow> c \<in> set ?considered)
                 \<and> (?available = [c] \<longrightarrow>
                      (\<forall>em ai. ?matching = Inr (em, ai) \<longrightarrow>
                         (\<exists>selected. getNextTeamMember e teamMembers conv mid w = Inr (selected, w)
                                     \<and> nt_member selected = Some c)))"
    if h: "c \<in> set ?available" "a_status (availability c) = busy"
      "a_currentWorkload (availability c) = 3" for c
  proof -
    have n: "\<not> canHandleWorkload c"
      using h(2,3) by (simp add: canHandleWorkload_def WORKLOAD_THRESHOLDS_def)
    have excl: "(\<exists>x \<in> set ?available. canHandleWorkload x) \<longrightarrow> c \<notin> set ?considered"
      using n by (simp add: set_membersToConsider)
    have fb: "(\<forall>x \<in> set ?available. \<not> canHandleWorkload x) \<longrightarrow> c \<in> set ?considered"
      using h(1) by (simp add: set_membersToConsider)
    have single: "\<exists>selected. getNextTeamMember e teamMembers conv mid w = Inr (selected, w)
                            \<and> nt_member selected = Some c"
      if a: "?available = [c]" and m: "?matching = Inr (em, ai)" for em ai
    proof -
      have one: "?considered = [c]" using n a by (simp add: membersToConsider_fallback)
      have ne: "?available \<noteq> []" using a by simp
      show ?thesis
        unfolding getNextTeamMember_available [OF ne] m
        by (simp add: one selectBestMember_single)
    qed
    from n excl fb single show ?thesis by blast
  qed
  have all: "?available \<noteq> [] \<longrightarrow>
           set ?considered =
             (if \<exists>x \<in> set ?available. canHandleWorkload x
              then {x \<in> set ?available. canHandleWorkload x} else set ?available)
           \<and> (\<forall>err. ?matching = Inl err \<longrightarrow>
                 getNextTeamMember e teamMembers conv mid w = Inl err)
           \<and> (\<forall>em ai. ?matching = Inr (em, ai) \<longrightarrow>
                 (\<exists>chosen \<in> set ?considered. \<exists>selected.
                    getNextTeamMember e teamMembers conv mid w =
                      Inr (selected,
                           w\<lparr>roundRobinCache :=
                               snd (selectBestMember ?considered em mid (roundRobinCache w))\<rparr>)
                    \<and> nt_member selected = Some chosen \<and> nt_error selected = None
                    \<and> nt_aiResult selected = ai
                    \<and> chosen \<in> set ?available
                    \<and> ((\<exists>x \<in> set ?available. canHandleWorkload x) \<longrightarrow> canHandleWorkload chosen)))
           \<and> (\<forall>c \<in> set ?available.
                 a_status (availability c) = busy \<and> a_currentWorkload (availability c) = 3 \<longrightarrow>
                 \<not> canHandleWorkload c
                 \<and> ((\<exists>x \<in> set ?available. canHandleWorkload x) \<longrightarrow> c \<notin> set ?considered)
                 \<and> ((\<forall>x \<in> set ?available. \<not> canHandleWorkload x) \<longrightarrow> c \<in> set ?considered)
                 \<and> (?available = [c] \<longrightarrow>
                      (\<forall>em ai. ?matching = Inr (em, ai) \<longrightarrow>
                         (\<exists>selected. getNextTeamMember e teamMembers conv mid w = Inr (selected, w)
                                     \<and> nt_member selected = Some c))))"
    using considered rejected chosen busy3_engine by blast
  show ?thesis
    unfolding Let_def using gate fallback never_blocked busy3 engine all by blast
qed

theorem workload_gate_with_fallback_witness:
  "getAvailableTeamMembers gateTeam 1 gateWorld
     = [exampleMember ''ann'' CORE online 8, exampleMember ''bob'' NON_CORE busy 0]
   \<and> \<not> canHandleWorkload (exampleMember ''ann'' CORE online 8)
   \<and> canHandleWorkload (exampleMember ''bob'' NON_CORE busy 0)
   \<and> calculateMemberScore (exampleMember ''ann'' CORE online 8) False = 70
   \<and> calculateMemberScore (exampleMember ''bob'' NON_CORE busy 0) False = 50
   \<and> getExpertiseMatchingMembers gateEnv
        (membersToConsider (getAvailableTeamMembers gateTeam 1 gateWorld))
        (getConversationContent (exampleConversation 9 1 None None)) 1 = Inr ([], None)
   \<and> (\<exists>selected.
        getNextTeamMember gateEnv gateTeam (exampleConversation 9 1 None None) 1 gateWorld
          = Inr (selected, gateWorld)
        \<and> nt_member selected = Some (exampleMember ''bob'' NON_CORE busy 0))
   \<and> getAvailableTeamMembers [exampleUser ''bob'' NON_CORE []] 1 fallbackWorld
       = [exampleMember ''bob'' NON_CORE busy 3]
   \<and> \<not> canHandleWorkload (exampleMember ''bob'' NON_CORE busy 3)
   \<and> (\<exists>selected.
        getNextTeamMember gateEnv [exampleUser ''bob'' NON_CORE []]
          (exampleConversation 9 1 None None) 1 fallbackWorld
          = Inr (selected, fallbackWorld)
        \<and> nt_member selected = Some (exampleMember ''bob'' NON_CORE busy 3))"
proof -
  let ?ann = "exampleMember ''ann'' CORE online 8"
  let ?bob = "exampleMember ''bob'' NON_CORE busy 0"
  let ?bob3 = "exampleMember ''bob'' NON_CORE busy 3"
  let ?conv = "exampleConversation 9 1 None None"
  let ?team3 = "[exampleUser ''bob'' NON_CORE []]"
  have av: "getAvailableTeamMembers gateTeam 1 gateWorld = [?ann, ?bob]"
    by (simp add: assignment_defs gateTeam_def gateWorld_def exampleUser_def exampleRow_def
        exampleConversation_def emptyWorld_def exampleMember_def)
  have av3: "getAvailableTeamMembers ?team3 1 fallbackWorld = [?bob3]"
    by (simp add: assignment_defs fallbackWorld_def exampleUser_def exampleRow_def
        exampleConversation_def emptyWorld_def exampleMember_def)
  have g: "\<not> canHandleWorkload ?ann" "canHandleWorkload ?bob" "\<not> canHandleWorkload ?bob3"
    by (simp_all add: canHandleWorkload_def WORKLOAD_THRESHOLDS_def exampleMember_def)
  have sc: "calculateMemberScore ?ann False = 70" "calculateMemberScore ?bob False = 50"
    by (simp_all add: calculateMemberScore_def PRIORITY_SCORES_def exampleMember_def Let_def)
  have cons: "membersToConsider [?ann, ?bob] = [?bob]" "membersToConsider [?bob3] = [?bob3]"
    using g by (simp_all add: membersToConsider_fallback)
  have mt: "getExpertiseMatchingMembers gateEnv [?bob] (getConversationContent ?conv) 1
              = Inr ([], None)"
    "getExpertiseMatchingMembers gateEnv [?bob3] (getConversationContent ?conv) 1
              = Inr ([], None)"
    by (simp_all add: getExpertiseMatchingMembers_def exampleMember_def Let_def)
  have b3: "a_status (availability ?bob3) = busy \<and> a_currentWorkload (availability ?bob3) = 3"
    by (simp add: exampleMember_def)
  have sel: "selectBestMember [?bob] [] 1 (roundRobinCache gateWorld)
               = (Some ?bob, roundRobinCache gateWorld)"
    by (rule selectBestMember_single)
  have ne: "[?ann, ?bob] \<noteq> []" "[?bob3] \<noteq> []" by simp_all
  note gated = workload_gate_with_fallback
         [of ?ann "[?ann, ?bob]" "[]" 1 Map.empty ?bob3 gateTeam gateWorld gateEnv ?conv
             undefined undefined,
          THEN conjunct2, THEN conjunct2, THEN conjunct2, THEN conjunct2, THEN conjunct2,
          unfolded Let_def av cons, THEN mp, OF ne(1)]
  note chosen = gated [THEN conjunct2, THEN conjunct2, THEN conjunct1, THEN spec, THEN spec,
          THEN mp, OF mt(1)]
  from chosen have 1: "\<exists>selected.
        getNextTeamMember gateEnv gateTeam ?conv 1 gateWorld = Inr (selected, gateWorld)
        \<and> nt_member selected = Some ?bob"
    unfolding sel by auto
  note fallen = workload_gate_with_fallback
         [of ?bob3 "[?bob3]" "[]" 1 Map.empty ?bob3 ?team3 fallbackWorld gateEnv ?conv
             undefined undefined,
          THEN conjunct2, THEN conjunct2, THEN conjunct2, THEN conjunct2, THEN conjunct2,
          unfolded Let_def av3 cons, THEN mp, OF ne(2)]
  note only = fallen [THEN conjunct2, THEN conjunct2, THEN conjunct2, THEN bspec, of ?bob3,
          THEN mp, OF _ b3]
  have "?bob3 \<in> set [?bob3]" by simp
  note single = only [OF this, THEN conjunct2, THEN conjunct2, THEN conjunct2, THEN mp, OF refl,
          THEN spec, THEN spec, THEN mp, OF mt(2)]
  from single have 2: "\<exists>selected.
        getNextTeamMember gateEnv ?team3 ?conv 1 fallbackWorld = Inr (selected, fallbackWorld)
        \<and> nt_member selected = Some ?bob3" .
  have m: "getExpertiseMatchingMembers gateEnv
        (membersToConsider (getAvailableTeamMembers gateTeam 1 gateWorld))
        (getConversationContent ?conv) 1 = Inr ([], None)"
    unfolding av cons by (rule mt(1))
  from av g(1) g(2) sc m 1 av3 g(3) 2 show ?thesis by (intro conjI)
qed

text \<open>
  With two or more candidates of the maximum score, whatever their workloads, the cursor
  is advanced by one modulo their number, stored, and used as the index of the choice.
\<close>

lemma topCandidates_Nil: "topCandidates [] em = []"
  by (simp add: topCandidates_def membersWithScores_def sortBy_def)

lemma selectBestMember_rotates:
  assumes "2 \<le> length (topCandidates ms em)"
  shows "selectBestMember ms em mid cache =
           (Some (sm_member (topCandidates ms em !
                    (((case cache mid of None \<Rightarrow> 0 | Some i \<Rightarrow> i) + 1) mod
                       length (topCandidates ms em)))),
            cache(mid \<mapsto> ((case cache mid of None \<Rightarrow> 0 | Some i \<Rightarrow> i) + 1) mod
                             length (topCandidates ms em)))"
proof -
  have ne: "ms \<noteq> []"
  proof
    assume "ms = []"
    then have "length (topCandidates ms em) = 0" by (simp add: topCandidates_Nil)
    with assms show False by simp
  qed
  have pos: "0 < length (topCandidates ms em)" using assms by linarith
  have n1: "length (topCandidates ms em) \<noteq> 1" using assms by linarith
  show ?thesis
    using ne pos n1 by (simp add: selectBestMember_def Let_def)
qed

text \<open>
  Claim C1. Two candidates share the maximum score 100: ann (online, workload 0, not core)
  and bob (online, workload 2, core). The sort places ann, of lower workload, first; the
  selection still consults the cursor, writes it, and returns bob. The next call on the
  same candidates returns ann, the one after bob again.
\<close>

theorem score_tie_rotation_ignores_workload:
  "calculateMemberScore (exampleMember ''ann'' NON_CORE online 0) False = 100
   \<and> calculateMemberScore (exampleMember ''bob'' CORE online 2) False = 100
   \<and> map sm_member
        (topCandidates [exampleMember ''bob'' CORE online 2, exampleMember ''ann'' NON_CORE online 0] [])
       = [exampleMember ''ann'' NON_CORE online 0, exampleMember ''bob'' CORE online 2]
   \<and> selectBestMember
        [exampleMember ''bob'' CORE online 2, exampleMember ''ann'' NON_CORE online 0] [] 1 Map.empty
       = (Some (exampleMember ''bob'' CORE online 2), [1 \<mapsto> 1])
   \<and> selectBestMember
        [exampleMember ''bob'' CORE online 2, exampleMember ''ann'' NON_CORE online 0] [] 1 [1 \<mapsto> 1]
       = (Some (exampleMember ''ann'' NON_CORE online 0), [1 \<mapsto> 0])
   \<and> selectBestMember
        [exampleMember ''bob'' CORE online 2, exampleMember ''ann'' NON_CORE online 0] [] 1 [1 \<mapsto> 0]
       = (Some (exampleMember ''bob'' CORE online 2), [1 \<mapsto> 1])"
  by (simp add: exampleMember_def selectBestMember_def topCandidates_def membersWithScores_def
      sortBy_def compareScored_def calculateMemberScore_def PRIORITY_SCORES_def Let_def)

section \<open>Properties of the assignment job\<close>

lemma skip_assigned:
  assumes "find (\<lambda>c. conv_id c = cid) (conversationsTbl w) = Some conv"
    and "assignedToId conv = Some a" "a \<noteq> []"
  shows "autoAssignConversation e now cid w =
           (Inr (Skipped ''Skipped: already assigned'' None None), w)"
  using assms by (simp add: autoAssignConversation_def)

lemma skip_merged:
  assumes "find (\<lambda>c. conv_id c = cid) (conversationsTbl w) = Some conv"
    and "assignedToId conv = None \<or> assignedToId conv = Some []"
    and "mergedIntoId conv = Some m" "m \<noteq> 0"
  shows "autoAssignConversation e now cid w =
           (Inr (Skipped ''Skipped: conversation is merged'' None None), w)"
  using assms by (auto simp add: autoAssignConversation_def)

lemma skip_no_active:
  assumes "find (\<lambda>c. conv_id c = cid) (conversationsTbl w) = Some conv"
    and "assignedToId conv = None \<or> assignedToId conv = Some []"
    and "mergedIntoId conv = None \<or> mergedIntoId conv = Some 0"
    and "getMailboxById e (conv_mailboxId conv) = Some mailbox"
    and "getUsersWithMailboxAccess e mailbox = Some teamMembers"
    and "\<forall>member \<in> set teamMembers. role member \<noteq> CORE \<and> role member \<noteq> NON_CORE"
  shows "autoAssignConversation e now cid w =
           (Inr (Skipped ''Skipped: no active team members available for assignment''
                   None None), w)"
proof -
  have "filter (\<lambda>member. role member = CORE \<or> role member = NON_CORE) teamMembers = []"
    using assms(6) by (auto simp: filter_empty_conv)
  then show ?thesis using assms(1-5)
    by (auto simp add: autoAssignConversation_def Let_def)
qed

text \<open>
  Claim C8. For a conversation that exists: when it is already assigned (the assignee id
  is set), or merged into another conversation (the id it is merged into is set), or
  when its mailbox has no roster member of a team role, the job returns a skip result,
  not an error, and the world it leaves is the world it found: no activity recorded, no
  assignee set, no note, no cursor written.
\<close>

theorem skip_outcomes_write_nothing:
  assumes "find (\<lambda>c. conv_id c = cid) (conversationsTbl w) = Some conv"
  shows "((\<exists>a. assignedToId conv = Some a \<and> a \<noteq> []) \<longrightarrow>
            autoAssignConversation e now cid w =
              (Inr (Skipped ''Skipped: already assigned'' None None), w))
       \<and> ((assignedToId conv = None \<or> assignedToId conv = Some [])
            \<and> (\<exists>m. mergedIntoId conv = Some m \<and> m \<noteq> 0) \<longrightarrow>
            autoAssignConversation e now cid w =
              (Inr (Skipped ''Skipped: conversation is merged'' None None), w))
       \<and> ((assignedToId conv = None \<or> assignedToId conv = Some [])
            \<and> (mergedIntoId conv = None \<or> mergedIntoId conv = Some 0)
            \<and> getMailboxById e (conv_mailboxId conv) = Some mailbox
            \<and> getUsersWithMailboxAccess e mailbox = Some teamMembers
            \<and> (\<forall>member \<in> set teamMembers. role member \<noteq> CORE \<and> role member \<noteq> NON_CORE) \<longrightarrow>
            autoAssignConversation e now cid w =
              (Inr (Skipped ''Skipped: no active team members available for assignment''
                      None None), w))"
  using skip_assigned [OF assms] skip_merged [OF assms] skip_no_active [OF assms]
  by blast

theorem skip_outcomes_write_nothing_witness:
  "autoAssignConversation skipEnv 0 7
      (emptyWorld\<lparr>conversationsTbl := [exampleConversation 7 1 (Some ''ann'') None]\<rparr>)
     = (Inr (Skipped ''Skipped: already assigned'' None None),
        emptyWorld\<lparr>conversationsTbl := [exampleConversation 7 1 (Some ''ann'') None]\<rparr>)
   \<and> autoAssignConversation skipEnv 0 7
      (emptyWorld\<lparr>conversationsTbl := [exampleConversation 7 1 None (Some 3)]\<rparr>)
     = (Inr (Skipped ''Skipped: conversation is merged'' None None),
        emptyWorld\<lparr>conversationsTbl := [exampleConversation 7 1 None (Some 3)]\<rparr>)
   \<and> autoAssignConversation skipEnv 0 7
      (emptyWorld\<lparr>conversationsTbl := [exampleConversation 7 1 None None]\<rparr>)
     = (Inr (Skipped ''Skipped: no active team members available for assignment'' None None),
        emptyWorld\<lparr>conversationsTbl := [exampleConversation 7 1 None None]\<rparr>)"
proof -
  let ?w = "\<lambda>c. emptyWorld\<lparr>conversationsTbl := [c]\<rparr>"
  have f: "\<And>a m. find (\<lambda>c. conv_id c = 7) (conversationsTbl (?w (exampleConversation 7 1 a m)))
             = Some (exampleConversation 7 1 a m)"
    by (simp add: emptyWorld_def exampleConversation_def)
  have a: "\<And>a m. assignedToId (exampleConversation 7 1 a m) = a
             \<and> mergedIntoId (exampleConversation 7 1 a m) = m
             \<and> conv_mailboxId (exampleConversation 7 1 a m) = 1"
    by (simp add: exampleConversation_def)
  have e: "getMailboxById skipEnv 1 = Some 1
      \<and> getUsersWithMailboxAccess skipEnv 1 = Some [exampleUser ''zed'' OTHER_ROLE []]
      \<and> (\<forall>member \<in> set [exampleUser ''zed'' OTHER_ROLE []].
            role member \<noteq> CORE \<and> role member \<noteq> NON_CORE)"
    by (simp add: skipEnv_def exampleEnv_def exampleUser_def)
  have assigned:
    "autoAssignConversation skipEnv 0 7 (?w (exampleConversation 7 1 (Some ''ann'') None))
       = (Inr (Skipped ''Skipped: already assigned'' None None),
          ?w (exampleConversation 7 1 (Some ''ann'') None))"
    using skip_outcomes_write_nothing [OF f [of "Some ''ann''" None], of skipEnv 0 1 "[]"]
      a [of "Some ''ann''" None]
    by simp
  have merged:
    "autoAssignConversation skipEnv 0 7 (?w (exampleConversation 7 1 None (Some 3)))
       = (Inr (Skipped ''Skipped: conversation is merged'' None None),
          ?w (exampleConversation 7 1 None (Some 3)))"
    using skip_outcomes_write_nothing [OF f [of None "Some 3"], of skipEnv 0 1 "[]"]
      a [of None "Some 3"]
    by simp
  have empty:
    "autoAssignConversation skipEnv 0 7 (?w (exampleConversation 7 1 None None))
       = (Inr (Skipped ''Skipped: no active team members available for assignment'' None None),
          ?w (exampleConversation 7 1 None None))"
    using skip_outcomes_write_nothing [OF f [of None None], of skipEnv 0 1
        "[exampleUser ''zed'' OTHER_ROLE []]"]
      a [of None None] e
    by simp
  from assigned merged empty show ?thesis by simp
qed

text \<open>
  Claim C5, as stated, fails: with one online core member who declares a keyword, a
  conversation with a subject, and an expertise query that is rejected, the job is
  rejected with the error of the query.
\<close>

theorem matcher_rejection_fails_assignment:
  "autoAssignConversation matcherDownEnv 0 7 matcherDownWorld
     = (Inl (AIQueryError ''unavailable''), matcherDownWorld)"
  by (simp add: assignment_defs matcherDownEnv_def matcherDownWorld_def exampleEnv_def
      exampleUser_def exampleRow_def exampleConversation_def emptyWorld_def Let_def)

text \<open>
  Claim C5, amended. For an unassigned, unmerged conversation with at least one available
  member: the expertise query is made only when the content is not empty and a considered
  member of a team role declares keywords, and otherwise the match-set is empty with no
  error; when the query is made and rejected, the rejection is the outcome of the
  matching step and of the whole job, which has then written nothing.
\<close>

theorem matcher_skipped_or_rejection_propagates:
  assumes "find (\<lambda>c. conv_id c = cid) (conversationsTbl w) = Some conv"
    and "assignedToId conv = None \<or> assignedToId conv = Some []"
    and "mergedIntoId conv = None \<or> mergedIntoId conv = Some 0"
    and "getMailboxById e (conv_mailboxId conv) = Some mailbox"
    and "getUsersWithMailboxAccess e mailbox = Some teamMembers"
    and "active = filter (\<lambda>member. role member = CORE \<or> role member = NON_CORE) teamMembers"
    and "considered = membersToConsider (getAvailableTeamMembers active mailbox w)"
    and "withKeywords = filter (\<lambda>member. (role member = NON_CORE \<or> role member = CORE) \<and>
                                   length (member_keywords member) > 0) considered"
    and "getAvailableTeamMembers active mailbox w \<noteq> []"
  shows "(getConversationContent conv = [] \<or> withKeywords = [] \<longrightarrow>
            getExpertiseMatchingMembers e considered (getConversationContent conv) mailbox
              = Inr ([], None))
       \<and> (getConversationContent conv \<noteq> [] \<and> withKeywords \<noteq> []
            \<and> runAIObjectQuery e mailbox withKeywords (getConversationContent conv) = Inl err \<longrightarrow>
            getExpertiseMatchingMembers e considered (getConversationContent conv) mailbox = Inl err
            \<and> autoAssignConversation e now cid w = (Inl err, w))"
proof -
  have ne: "considered \<noteq> []"
    using assms(7,9) by (simp add: membersToConsider_fallback)
  have act: "active \<noteq> []"
    using assms(9) by (auto simp: getAvailableTeamMembers_def)
  have skip: "getExpertiseMatchingMembers e considered (getConversationContent conv) mailbox
              = Inr ([], None)"
    if "getConversationContent conv = [] \<or> withKeywords = []"
    using that assms(8) by (auto simp: getExpertiseMatchingMembers_def Let_def)
  have fail: "getExpertiseMatchingMembers e considered (getConversationContent conv) mailbox = Inl err
            \<and> autoAssignConversation e now cid w = (Inl err, w)"
    if h: "getConversationContent conv \<noteq> []" "withKeywords \<noteq> []"
      "runAIObjectQuery e mailbox withKeywords (getConversationContent conv) = Inl err"
  proof -
    have m: "getExpertiseMatchingMembers e considered (getConversationContent conv) mailbox = Inl err"
      using h ne assms(8) by (simp add: getExpertiseMatchingMembers_def Let_def)
    have n: "getNextTeamMember e active conv mailbox w = Inl err"
      using m assms(7,9) by (simp add: getNextTeamMember_def Let_def)
    have "autoAssignConversation e now cid w = (Inl err, w)"
      using n act assms(1-6) by (auto simp add: autoAssignConversation_def Let_def)
    with m show ?thesis by simp
  qed
  show ?thesis using skip fail by blast
qed

theorem matcher_skipped_or_rejection_propagates_witness:
  "find (\<lambda>c. conv_id c = 7) (conversationsTbl matcherDownWorld) = Some (exampleConversation 7 1 None None)
   \<and> getConversationContent (exampleConversation 7 1 None None) = ''refund please''
   \<and> getAvailableTeamMembers [exampleUser ''ann'' CORE [''refund'']] 1 matcherDownWorld \<noteq> []
   \<and> getExpertiseMatchingMembers matcherDownEnv
        (membersToConsider (getAvailableTeamMembers [exampleUser ''ann'' CORE [''refund'']] 1 matcherDownWorld))
        ''refund please'' 1 = Inl (AIQueryError ''unavailable'')
   \<and> autoAssignConversation matcherDownEnv 42 7 matcherDownWorld
       = (Inl (AIQueryError ''unavailable''), matcherDownWorld)"
proof -
  let ?conv = "exampleConversation 7 1 None None"
  let ?team = "[exampleUser ''ann'' CORE [''refund'']]"
  let ?active = "filter (\<lambda>member. role member = CORE \<or> role member = NON_CORE) ?team"
  let ?considered = "membersToConsider (getAvailableTeamMembers ?active 1 matcherDownWorld)"
  let ?withKeywords = "filter (\<lambda>member. (role member = NON_CORE \<or> role member = CORE) \<and>
                                   length (member_keywords member) > 0) ?considered"
  have f: "find (\<lambda>c. conv_id c = 7) (conversationsTbl matcherDownWorld) = Some ?conv"
    by (simp add: matcherDownWorld_def emptyWorld_def exampleConversation_def)
  have a: "assignedToId ?conv = None \<or> assignedToId ?conv = Some []"
    and m: "mergedIntoId ?conv = None \<or> mergedIntoId ?conv = Some 0"
    by (simp_all add: exampleConversation_def)
  have mb: "getMailboxById matcherDownEnv (conv_mailboxId ?conv) = Some 1"
    by (simp add: matcherDownEnv_def exampleEnv_def exampleConversation_def)
  have us: "getUsersWithMailboxAccess matcherDownEnv 1 = Some ?team"
    by (simp add: matcherDownEnv_def exampleEnv_def)
  have act: "?active = ?team" by (simp add: exampleUser_def)
  have av: "getAvailableTeamMembers ?team 1 matcherDownWorld
      = [\<lparr>member_id = ''ann'', displayName = ''ann'', role = CORE, member_keywords = [''refund''],
          availability = \<lparr>a_status = online, a_currentWorkload = 0,
                          a_isAvailableForAssignment = True, a_customMessage = None\<rparr>\<rparr>]"
    by (simp add: assignment_defs matcherDownWorld_def exampleUser_def exampleRow_def
        exampleConversation_def emptyWorld_def)
  have ne: "getAvailableTeamMembers ?active 1 matcherDownWorld \<noteq> []"
    unfolding act av by simp
  have c: "getConversationContent ?conv = ''refund please''"
    by (simp add: getConversationContent_def exampleConversation_def)
  have k: "?withKeywords \<noteq> []"
    unfolding act av
    by (simp add: membersToConsider_def canHandleWorkload_def WORKLOAD_THRESHOLDS_def)
  have q: "runAIObjectQuery matcherDownEnv 1 ?withKeywords (getConversationContent ?conv)
             = Inl (AIQueryError ''unavailable'')"
    by (simp add: matcherDownEnv_def exampleEnv_def)
  from matcher_skipped_or_rejection_propagates
         [OF f a m mb us refl refl refl ne, of "AIQueryError ''unavailable''" 42] c k q
  have "getExpertiseMatchingMembers matcherDownEnv ?considered (getConversationContent ?conv) 1
          = Inl (AIQueryError ''unavailable'')
        \<and> autoAssignConversation matcherDownEnv 42 7 matcherDownWorld
          = (Inl (AIQueryError ''unavailable''), matcherDownWorld)"
    by simp
  then show ?thesis using f c ne unfolding act by simp
qed

section \<open>Properties of the availability data layer\<close>

lemma find_Some_filter: "find P xs = Some x \<Longrightarrow> \<exists>rest. filter P xs = x # rest"
  by (induction xs) (auto split: if_splits)

lemma find_Some_set: "find P xs = Some x \<Longrightarrow> x \<in> set xs \<and> P x"
  by (induction xs) (auto split: if_splits)

text \<open>A lookup in a table whose rows were rewritten without touching what is looked up.\<close>

lemma find_map_preserving:
  assumes "\<And>x. P (h x) = P x"
  shows "find P (map h xs) = map_option h (find P xs)"
  using assms by (induction xs) auto

text \<open>The writes of the transaction for a user who has a row.\<close>

lemma transactionWrites_existing:
  assumes "getUserAvailability uid mid w = Some current"
  shows "\<exists>tbl. transactionWrites now uid mid updates w =
           Inr (applySet updates now current current,
                w\<lparr>userAvailabilityTbl := tbl,
                  availabilityHistoryTbl :=
                    (case u_status updates of
                       None \<Rightarrow> availabilityHistoryTbl w
                     | Some newStatus \<Rightarrow>
                         if newStatus \<noteq> status current
                         then availabilityHistoryTbl w @
                                [\<lparr>h_userId = uid, h_mailboxId = mid,
                                  fromStatus = status current, toStatus = newStatus,
                                  durationSeconds = Some ((now - lastStatusChangeAt current) div 1000),
                                  changeReason = Some (case u_changeReason updates of
                                                         None \<Rightarrow> manual | Some r \<Rightarrow> r),
                                  sessionData = u_sessionData updates, createdAt = now\<rparr>]
                         else availabilityHistoryTbl w)\<rparr>)
         \<and> tbl = map (\<lambda>r. if userId r = uid \<and> mailboxId r = mid
                           then applySet updates now current r else r) (userAvailabilityTbl w)"
proof -
  from assms obtain rest where
    "filter (\<lambda>r. userId r = uid \<and> mailboxId r = mid) (userAvailabilityTbl w) = current # rest"
    unfolding getUserAvailability_def by (blast dest: find_Some_filter)
  then show ?thesis using assms
    by (simp add: transactionWrites_def Let_def)
qed

text \<open>
  What an update with the status the record already has does, in general: no history row
  is written, and \<^verbatim>\<open>lastStatusChangeAt\<close> of the returned record is the time of the call.
\<close>

lemma same_status_update:
  assumes "getUserAvailability uid mid w = Some current"
    and "u_status updates = Some (status current)"
    and "transactionWrites now uid mid updates w = Inr (updated, w')"
  shows "availabilityHistoryTbl w' = availabilityHistoryTbl w \<and> lastStatusChangeAt updated = now"
  using transactionWrites_existing [OF assms(1), of now updates] assms(2,3)
  by (auto simp: applySet_def)

text \<open>
  Claim C2. The record of user u1 is online since time 1000. At time 5000 the status
  update is called with the same status online and a new message. No history row is
  written, but \<^verbatim>\<open>lastStatusChangeAt\<close> of the stored and of the returned record is now
  5000.
\<close>

theorem same_status_update_moves_lastStatusChangeAt:
  "getUserAvailability ''u1'' 1 onlineWorld = Some (exampleRow ''u1'' 1 online 1000)
   \<and> lastStatusChangeAt (exampleRow ''u1'' 1 online 1000) = 1000
   \<and> updateUserAvailability (exampleEnv True (Inl NonRetriableError) []) 5000 ''u1'' 1
        (noUpdates\<lparr>u_status := Some online, u_customMessage := Some (Some ''lunch'')\<rparr>)
        onlineWorld
     = Inr ((exampleRow ''u1'' 1 online 1000)
              \<lparr>customMessage := Some ''lunch'', lastActivityAt := 5000, lastStatusChangeAt := 5000\<rparr>,
            emptyWorld\<lparr>userAvailabilityTbl :=
                [(exampleRow ''u1'' 1 online 1000)
                   \<lparr>customMessage := Some ''lunch'', lastActivityAt := 5000,
                    lastStatusChangeAt := 5000\<rparr>],
              availabilityHistoryTbl := [],
              realtimeEvents :=
                [(1, (exampleRow ''u1'' 1 online 1000)
                   \<lparr>customMessage := Some ''lunch'', lastActivityAt := 5000,
                    lastStatusChangeAt := 5000\<rparr>)]\<rparr>)"
  by (simp add: updateUserAvailability_def transactionWrites_def getUserAvailability_def
      applySet_def exampleRow_def emptyWorld_def onlineWorld_def exampleEnv_def noUpdates_def
      Let_def)

text \<open>
  Claim C4, as stated, fails: user u1 is online and the status is set to busy while the
  publish is rejected. The writes of the transaction are made (the record becomes busy,
  one history row is added), yet the update is rejected with the rejection of the
  publish, and the router's mutation leaves the world as it was.
\<close>

theorem rejected_broadcast_rolls_back_transition:
  "map_sum id (status \<circ> fst)
     (transactionWrites 5000 ''u1'' 1 (noUpdates\<lparr>u_status := Some busy\<rparr>) onlineWorld) = Inr busy
   \<and> map_sum id (availabilityHistoryTbl \<circ> snd)
     (transactionWrites 5000 ''u1'' 1 (noUpdates\<lparr>u_status := Some busy\<rparr>) onlineWorld)
       = Inr [\<lparr>h_userId = ''u1'', h_mailboxId = 1, fromStatus = online, toStatus = busy,
               durationSeconds = Some 4, changeReason = Some manual, sessionData = None,
               createdAt = 5000\<rparr>]
   \<and> updateUserAvailability publishDownEnv 5000 ''u1'' 1 (noUpdates\<lparr>u_status := Some busy\<rparr>)
       onlineWorld = Inl PublishRejected
   \<and> perform publishDownEnv 5000 (UpdateStatus ''u1'' 1 busy None) onlineWorld = onlineWorld"
  by (simp add: updateUserAvailability_def transactionWrites_def getUserAvailability_def
      applySet_def exampleRow_def emptyWorld_def exampleEnv_def noUpdates_def Let_def
      publishDownEnv_def onlineWorld_def updateStatus_def worldAfter_def)

text \<open>
  Claim C4, amended. For every status transition of an existing record, the history
  insert and the record update are followed, inside the same transaction callback, by
  the awaited publish. When the publish is fulfilled the transition is committed: the
  history has one more row, from the old to the new status, the rows of the user are
  updated and the record read back is the one returned, and the event is delivered.
  When the publish is rejected the update is rejected with it and nothing is committed:
  the record read back and the history are the ones before the call.
\<close>

theorem broadcast_awaited_inside_transaction:
  assumes "getUserAvailability uid mid w = Some current"
    and "u_status updates = Some newStatus" and "newStatus \<noteq> status current"
  shows "\<exists>updated w'.
           transactionWrites now uid mid updates w = Inr (updated, w')
           \<and> updated = applySet updates now current current
           \<and> status updated = newStatus \<and> lastStatusChangeAt updated = now
           \<and> userAvailabilityTbl w' =
               map (\<lambda>r. if userId r = uid \<and> mailboxId r = mid
                         then applySet updates now current r else r) (userAvailabilityTbl w)
           \<and> getUserAvailability uid mid w' = Some updated
           \<and> availabilityHistoryTbl w' =
               availabilityHistoryTbl w @
                 [\<lparr>h_userId = uid, h_mailboxId = mid,
                   fromStatus = status current, toStatus = newStatus,
                   durationSeconds = Some ((now - lastStatusChangeAt current) div 1000),
                   changeReason = Some (case u_changeReason updates of None \<Rightarrow> manual | Some r \<Rightarrow> r),
                   sessionData = u_sessionData updates, createdAt = now\<rparr>]
           \<and> (publishToRealtime e mid updated \<longrightarrow>
                updateUserAvailability e now uid mid updates w =
                  Inr (updated, w'\<lparr>realtimeEvents := realtimeEvents w @ [(mid, updated)]\<rparr>)
                \<and> getUserAvailability uid mid
                    (worldAfter w (updateUserAvailability e now uid mid updates w)) = Some updated
                \<and> availabilityHistoryTbl
                    (worldAfter w (updateUserAvailability e now uid mid updates w)) =
                    availabilityHistoryTbl w'
                \<and> realtimeEvents
                    (worldAfter w (updateUserAvailability e now uid mid updates w)) =
                    realtimeEvents w @ [(mid, updated)])
           \<and> (\<not> publishToRealtime e mid updated \<longrightarrow>
                updateUserAvailability e now uid mid updates w = Inl PublishRejected
                \<and> worldAfter w (updateUserAvailability e now uid mid updates w) = w
                \<and> getUserAvailability uid mid
                    (worldAfter w (updateUserAvailability e now uid mid updates w)) = Some current
                \<and> availabilityHistoryTbl
                    (worldAfter w (updateUserAvailability e now uid mid updates w)) =
                    availabilityHistoryTbl w)"
proof -
  let ?rewrite = "\<lambda>r. if userId r = uid \<and> mailboxId r = mid
                       then applySet updates now current r else r"
  let ?hist = "availabilityHistoryTbl w @
                     [\<lparr>h_userId = uid, h_mailboxId = mid,
                       fromStatus = status current, toStatus = newStatus,
                       durationSeconds = Some ((now - lastStatusChangeAt current) div 1000),
                       changeReason = Some (case u_changeReason updates of None \<Rightarrow> manual | Some r \<Rightarrow> r),
                       sessionData = u_sessionData updates, createdAt = now\<rparr>]"
  let ?w' = "w\<lparr>userAvailabilityTbl := map ?rewrite (userAvailabilityTbl w),
               availabilityHistoryTbl := ?hist\<rparr>"
  let ?updated = "applySet updates now current current"
  from transactionWrites_existing [OF assms(1), of now updates]
  have t: "transactionWrites now uid mid updates w = Inr (?updated, ?w')"
    using assms(2,3) by auto
  have s: "status ?updated = newStatus \<and> lastStatusChangeAt ?updated = now"
    using assms(2) by (simp add: applySet_def)
  have key: "userId current = uid \<and> mailboxId current = mid"
    using assms(1) by (auto simp: getUserAvailability_def dest: find_Some_set)
  have "find (\<lambda>r. userId r = uid \<and> mailboxId r = mid) (map ?rewrite (userAvailabilityTbl w))
          = map_option ?rewrite (find (\<lambda>r. userId r = uid \<and> mailboxId r = mid) (userAvailabilityTbl w))"
    by (rule find_map_preserving) (simp add: applySet_def)
  then have g: "getUserAvailability uid mid ?w' = Some ?updated"
    using assms(1) key by (simp add: getUserAvailability_def)
  have g2: "getUserAvailability uid mid (v\<lparr>realtimeEvents := ev\<rparr>) = getUserAvailability uid mid v"
    for v ev by (simp add: getUserAvailability_def)
  have ok: "updateUserAvailability e now uid mid updates w =
               Inr (?updated, ?w'\<lparr>realtimeEvents := realtimeEvents w @ [(mid, ?updated)]\<rparr>)"
    if "publishToRealtime e mid ?updated"
    using that t by (simp add: updateUserAvailability_def)
  have ko: "updateUserAvailability e now uid mid updates w = Inl PublishRejected"
    if "\<not> publishToRealtime e mid ?updated"
    using that t by (simp add: updateUserAvailability_def)
  have committed:
    "getUserAvailability uid mid
        (worldAfter w (updateUserAvailability e now uid mid updates w)) = Some ?updated
     \<and> availabilityHistoryTbl
        (worldAfter w (updateUserAvailability e now uid mid updates w)) = availabilityHistoryTbl ?w'
     \<and> realtimeEvents
        (worldAfter w (updateUserAvailability e now uid mid updates w)) =
        realtimeEvents w @ [(mid, ?updated)]"
    if p: "publishToRealtime e mid ?updated"
    unfolding ok [OF p] using g by (simp add: worldAfter_def g2)
  have rolled:
    "worldAfter w (updateUserAvailability e now uid mid updates w) = w
     \<and> getUserAvailability uid mid
        (worldAfter w (updateUserAvailability e now uid mid updates w)) = Some current
     \<and> availabilityHistoryTbl
        (worldAfter w (updateUserAvailability e now uid mid updates w)) = availabilityHistoryTbl w"
    if p: "\<not> publishToRealtime e mid ?updated"
    unfolding ko [OF p] using assms(1) by (simp add: worldAfter_def)
  have tbl: "userAvailabilityTbl ?w' = map ?rewrite (userAvailabilityTbl w)"
    and hist: "availabilityHistoryTbl ?w' = ?hist"
    by simp_all
  show ?thesis
    apply (rule exI [of _ ?updated])
    apply (rule exI [of _ ?w'])
    using t s g tbl hist ok ko committed rolled by blast
qed

theorem broadcast_awaited_inside_transaction_witness:
  "getUserAvailability ''u1'' 1 onlineWorld = Some (exampleRow ''u1'' 1 online 1000)
   \<and> u_status (noUpdates\<lparr>u_status := Some away\<rparr>) = Some away
   \<and> away \<noteq> status (exampleRow ''u1'' 1 online 1000)
   \<and> updateUserAvailability publishDownEnv 7000 ''u1'' 1 (noUpdates\<lparr>u_status := Some away\<rparr>)
        onlineWorld = Inl PublishRejected
   \<and> getUserAvailability ''u1'' 1
        (worldAfter onlineWorld
           (updateUserAvailability publishDownEnv 7000 ''u1'' 1
              (noUpdates\<lparr>u_status := Some away\<rparr>) onlineWorld))
       = Some (exampleRow ''u1'' 1 online 1000)
   \<and> (\<exists>updated w'.
        updateUserAvailability (exampleEnv True (Inl NonRetriableError) []) 7000 ''u1'' 1
          (noUpdates\<lparr>u_status := Some away\<rparr>) onlineWorld = Inr (updated, w')
        \<and> status updated = away
        \<and> getUserAvailability ''u1'' 1 w' = Some updated
        \<and> length (availabilityHistoryTbl w') = 1
        \<and> realtimeEvents w' = [(1, updated)])"
proof -
  let ?u = "noUpdates\<lparr>u_status := Some away\<rparr>"
  let ?e = "exampleEnv True (Inl NonRetriableError) []"
  have g: "getUserAvailability ''u1'' 1 onlineWorld = Some (exampleRow ''u1'' 1 online 1000)"
    by (simp add: getUserAvailability_def onlineWorld_def emptyWorld_def exampleRow_def)
  have u: "u_status ?u = Some away" by (simp add: noUpdates_def)
  have d: "away \<noteq> status (exampleRow ''u1'' 1 online 1000)" by (simp add: exampleRow_def)
  have down: "\<And>r. \<not> publishToRealtime publishDownEnv 1 r"
    by (simp add: publishDownEnv_def exampleEnv_def)
  have up: "\<And>r. publishToRealtime ?e 1 r"
    by (simp add: exampleEnv_def)
  have ev: "realtimeEvents onlineWorld = [] \<and> availabilityHistoryTbl onlineWorld = []"
    by (simp add: onlineWorld_def emptyWorld_def)
  from broadcast_awaited_inside_transaction [OF g u d, of 7000 publishDownEnv] down
  have 1: "updateUserAvailability publishDownEnv 7000 ''u1'' 1 ?u onlineWorld = Inl PublishRejected
     \<and> getUserAvailability ''u1'' 1
        (worldAfter onlineWorld (updateUserAvailability publishDownEnv 7000 ''u1'' 1 ?u onlineWorld))
       = Some (exampleRow ''u1'' 1 online 1000)"
    by blast
  from broadcast_awaited_inside_transaction [OF g u d, of 7000 ?e] up
  obtain updated w' where
    r: "updateUserAvailability ?e 7000 ''u1'' 1 ?u onlineWorld =
          Inr (updated, w'\<lparr>realtimeEvents := realtimeEvents onlineWorld @ [(1, updated)]\<rparr>)"
    and s: "status updated = away"
    and c: "getUserAvailability ''u1'' 1
              (worldAfter onlineWorld (updateUserAvailability ?e 7000 ''u1'' 1 ?u onlineWorld))
            = Some updated"
    and h: "availabilityHistoryTbl w' =
              availabilityHistoryTbl onlineWorld @
                 [\<lparr>h_userId = ''u1'', h_mailboxId = 1,
                   fromStatus = status (exampleRow ''u1'' 1 online 1000), toStatus = away,
                   durationSeconds = Some ((7000 - lastStatusChangeAt (exampleRow ''u1'' 1 online 1000)) div 1000),
                   changeReason = Some (case u_changeReason ?u of None \<Rightarrow> manual | Some r \<Rightarrow> r),
                   sessionData = u_sessionData ?u, createdAt = 7000\<rparr>]"
    by blast
  have 2: "\<exists>updated w'.
        updateUserAvailability ?e 7000 ''u1'' 1 ?u onlineWorld = Inr (updated, w')
        \<and> status updated = away
        \<and> getUserAvailability ''u1'' 1 w' = Some updated
        \<and> length (availabilityHistoryTbl w') = 1
        \<and> realtimeEvents w' = [(1, updated)]"
    using r s c h ev by (simp add: worldAfter_def)
  from g u d 1 2 show ?thesis by blast
qed

section \<open>The auto-away deadline is never armed\<close>

lemma transactionWrites_unarmed:
  assumes "autoAwayUnarmed uid mid w"
    and "transactionWrites now uid' mid' updates w = Inr (r, w')"
    and "uid' = uid \<and> mid' = mid \<longrightarrow> u_autoAwayAt updates = None \<or> u_autoAwayAt updates = Some None"
  shows "autoAwayUnarmed uid mid w'"
proof (cases "getUserAvailability uid' mid' w")
  case None
  then have "w' = w\<lparr>userAvailabilityTbl := userAvailabilityTbl w @ [createdRow uid' mid' updates now]\<rparr>"
    using assms(2) by (auto simp add: transactionWrites_def Let_def)
  then show ?thesis using assms(1,3)
    by (auto simp: autoAwayUnarmed_def createdRow_def)
next
  case (Some current)
  from transactionWrites_existing [OF Some, of now updates] assms(2)
  have "userAvailabilityTbl w' =
          map (\<lambda>r. if userId r = uid' \<and> mailboxId r = mid'
                    then applySet updates now current r else r) (userAvailabilityTbl w)"
    by auto
  then show ?thesis using assms(1,3)
    by (auto simp: autoAwayUnarmed_def list_all_iff applySet_def)
qed

lemma updateUserAvailability_unarmed:
  assumes "autoAwayUnarmed uid mid w"
    and "updateUserAvailability e now uid' mid' updates w = Inr (r, w')"
    and "uid' = uid \<and> mid' = mid \<longrightarrow> u_autoAwayAt updates = None \<or> u_autoAwayAt updates = Some None"
  shows "autoAwayUnarmed uid mid w'"
proof -
  from assms(2) obtain w1 where
    t: "transactionWrites now uid' mid' updates w = Inr (r, w1)"
    and w': "w' = w1\<lparr>realtimeEvents := realtimeEvents w1 @ [(mid', r)]\<rparr>"
    by (auto simp: updateUserAvailability_def split: sum.splits if_splits)
  from transactionWrites_unarmed [OF assms(1) t assms(3)] w' show ?thesis
    by (simp add: autoAwayUnarmed_def)
qed

lemma recordUserActivity_unarmed:
  assumes "autoAwayUnarmed uid mid w"
    and "recordUserActivity e now uid' mid' w = Inr w'"
  shows "autoAwayUnarmed uid mid w'"
proof (cases "getUserAvailability uid' mid' w")
  case None
  with assms(2) obtain r where
    "updateUserAvailability e now uid' mid'
       (noUpdates\<lparr>u_status := Some online, u_changeReason := Some auto_activity\<rparr>) w = Inr (r, w')"
    by (auto simp: recordUserActivity_def map_sum_def split: sum.splits)
  from updateUserAvailability_unarmed [OF assms(1) this] show ?thesis
    by (simp add: noUpdates_def)
next
  case (Some current)
  with assms(2) obtain r where
    u: "updateUserAvailability e (laterReadings e now 0) uid' mid' (activityUpdates now current) w
          = Inr (r, w')"
    by (auto simp: recordUserActivity_def map_sum_def split: sum.splits)
  have "u_autoAwayAt (activityUpdates now current) = None" if "uid' = uid \<and> mid' = mid"
  proof -
    from Some have "current \<in> set (userAvailabilityTbl w) \<and> userId current = uid' \<and> mailboxId current = mid'"
      unfolding getUserAvailability_def by (blast dest: find_Some_set)
    with that assms(1) have "autoAwayAt current = None"
      by (auto simp: autoAwayUnarmed_def list_all_iff)
    then show ?thesis by (simp add: activityUpdates_def noUpdates_def Let_def)
  qed
  with updateUserAvailability_unarmed [OF assms(1) u] show ?thesis by blast
qed

lemma updateEach_unarmed:
  assumes "autoAwayUnarmed uid mid w"
    and "u_autoAwayAt updates = None \<or> u_autoAwayAt updates = Some None"
  shows "autoAwayUnarmed uid mid (fst (updateEach e now k updates users w))"
  using assms(1)
proof (induction users arbitrary: k w)
  case Nil
  then show ?case by simp
next
  case (Cons user users)
  show ?case
  proof (cases "updateUserAvailability e (laterReadings e now k) (userId user) (mailboxId user)
                  updates w")
    case (Inl err)
    then show ?thesis using Cons.prems by simp
  next
    case (Inr p)
    then obtain r w1 where p: "p = (r, w1)" by (cases p)
    from updateUserAvailability_unarmed [OF Cons.prems Inr [unfolded p]] assms(2)
    have "autoAwayUnarmed uid mid w1" by blast
    from Cons.IH [OF this] show ?thesis using Inr p by simp
  qed
qed

lemma processScheduledStatusChanges_unarmed:
  assumes "autoAwayUnarmed uid mid w"
  shows "autoAwayUnarmed uid mid (fst (processScheduledStatusChanges e now w))"
proof -
  have a: "autoAwayUnarmed uid mid (fst (scheduledReturnPass e now w))"
    unfolding scheduledReturnPass_def
    by (rule updateEach_unarmed [OF assms]) (simp add: scheduledReturnUpdates_def noUpdates_def)
  have b: "autoAwayUnarmed uid mid (fst (autoAwayPass e now k w1))"
    if "autoAwayUnarmed uid mid w1" for k w1
    unfolding autoAwayPass_def
    by (rule updateEach_unarmed [OF that]) (simp add: autoAwayUpdates_def noUpdates_def)
  show ?thesis
  proof (cases "scheduledReturnPass e now w")
    case (Pair w1 err)
    with a have "autoAwayUnarmed uid mid w1" by simp
    with Pair b [of w1 "length (scheduledReturns now w)"] show ?thesis
      by (cases err) (simp_all add: processScheduledStatusChanges_def)
  qed
qed

lemma worldAfter_unarmed:
  assumes "autoAwayUnarmed uid mid w"
    and "\<And>r w'. res = Inr (r, w') \<Longrightarrow> autoAwayUnarmed uid mid w'"
  shows "autoAwayUnarmed uid mid (worldAfter w res)"
  using assms by (auto simp: worldAfter_def split: sum.splits)

lemma updateStatus_unarmed:
  assumes "autoAwayUnarmed uid mid w"
  shows "autoAwayUnarmed uid mid (worldAfter w (updateStatus e now uid' mid' st message w))"
proof (rule worldAfter_unarmed [OF assms])
  fix r w' assume "updateStatus e now uid' mid' st message w = Inr (r, w')"
  then have "updateUserAvailability e now uid' mid'
               (noUpdates\<lparr>u_status := Some st, u_customMessage := message,
                          u_changeReason := Some manual\<rparr>) w = Inr (r, w')"
    by (auto simp: updateStatus_def split: sum.splits)
  from updateUserAvailability_unarmed [OF assms this] show "autoAwayUnarmed uid mid w'"
    by (simp add: noUpdates_def)
qed

lemma setBusinessHours_unarmed:
  assumes "autoAwayUnarmed uid mid w"
  shows "autoAwayUnarmed uid mid (worldAfter w (setBusinessHours e now uid' mid' hours w))"
proof (rule worldAfter_unarmed [OF assms])
  fix r w' assume "setBusinessHours e now uid' mid' hours w = Inr (r, w')"
  then have "updateUserAvailability e now uid' mid'
               (noUpdates\<lparr>u_businessHours := Some (Some hours), u_changeReason := Some manual\<rparr>) w
             = Inr (r, w')"
    by (auto simp: setBusinessHours_def split: sum.splits)
  from updateUserAvailability_unarmed [OF assms this] show "autoAwayUnarmed uid mid w'"
    by (simp add: noUpdates_def)
qed

lemma setScheduledReturn_unarmed:
  assumes "autoAwayUnarmed uid mid w"
  shows "autoAwayUnarmed uid mid (worldAfter w (setScheduledReturn e now uid' mid' returnAt message w))"
proof (rule worldAfter_unarmed [OF assms])
  fix r w' assume "setScheduledReturn e now uid' mid' returnAt message w = Inr (r, w')"
  then obtain updates where
    "updateUserAvailability e now uid' mid' updates w = Inr (r, w')" "u_autoAwayAt updates = None"
    by (auto simp: setScheduledReturn_def noUpdates_def split: sum.splits)
  from updateUserAvailability_unarmed [OF assms this(1)] this(2)
  show "autoAwayUnarmed uid mid w'" by simp
qed

lemma getNextTeamMember_table:
  assumes "getNextTeamMember e team conv mailbox w = Inr (next, w1)"
  shows "userAvailabilityTbl w1 = userAvailabilityTbl w"
  using assms
  by (auto simp: getNextTeamMember_def Let_def split: if_splits sum.splits prod.splits)

lemma commitAssignment_unarmed:
  assumes "autoAwayUnarmed uid mid w1"
  shows "autoAwayUnarmed uid mid (snd (commitAssignment e now conv mailbox next member w1))"
proof (cases "recordUserActivity e now (member_id member) mailbox w1")
  case (Inl err)
  then show ?thesis using assms by (simp add: commitAssignment_def)
next
  case (Inr w2)
  from recordUserActivity_unarmed [OF assms Inr] have "autoAwayUnarmed uid mid w2" .
  then show ?thesis using Inr
    by (simp add: commitAssignment_def autoAwayUnarmed_def updateConversation_def)
qed

lemma autoAssignConversation_unarmed:
  assumes "autoAwayUnarmed uid mid w"
  shows "autoAwayUnarmed uid mid (snd (autoAssignConversation e now cid w))"
proof -
  have nxt: "autoAwayUnarmed uid mid w1"
    if "getNextTeamMember e team conv mailbox w = Inr (n, w1)" for team conv mailbox n w1
    using assms getNextTeamMember_table [OF that] by (simp add: autoAwayUnarmed_def)
  show ?thesis
    unfolding autoAssignConversation_def Let_def
    by (auto simp: assms split: option.splits sum.splits prod.splits
        intro!: commitAssignment_unarmed dest: nxt)
qed

lemma perform_unarmed:
  assumes "autoAwayUnarmed uid mid w"
  shows "autoAwayUnarmed uid mid (perform e now op w)"
proof (cases op)
  case (UpdateStatus u m st message)
  then show ?thesis using updateStatus_unarmed [OF assms] by simp
next
  case (RecordActivity u m)
  then show ?thesis using assms recordUserActivity_unarmed [OF assms]
    by (auto split: sum.splits)
next
  case (SetBusinessHours u m hours)
  then show ?thesis using setBusinessHours_unarmed [OF assms] by simp
next
  case (SetScheduledReturn u m returnAt message)
  then show ?thesis using setScheduledReturn_unarmed [OF assms] by simp
next
  case ProcessScheduledStatusChanges
  then show ?thesis using processScheduledStatusChanges_unarmed [OF assms] by simp
next
  case (AutoAssignConversation c)
  then show ?thesis using autoAssignConversation_unarmed [OF assms] by simp
qed

lemma performAll_unarmed:
  assumes "autoAwayUnarmed uid mid w"
  shows "autoAwayUnarmed uid mid (performAll e ops w)"
  using assms
proof (induction ops arbitrary: w)
  case Nil
  then show ?case by simp
next
  case (Cons a ops)
  obtain now op where a: "a = (now, op)" by (cases a)
  from Cons.IH [OF perform_unarmed [OF Cons.prems]] show ?case by (simp add: a)
qed

lemma unarmed_not_selected:
  assumes "autoAwayUnarmed uid mid w" and "r \<in> set (autoAwayUsers now w)"
  shows "\<not> (userId r = uid \<and> mailboxId r = mid)"
  using assms by (auto simp: autoAwayUnarmed_def autoAwayUsers_def list_all_iff lteNow_def)

text \<open>
  Claim C10. No operation arms the auto-away deadline of a user who has none. If no row of
  a user in a mailbox has an \<^verbatim>\<open>autoAwayAt\<close> deadline, then after any operation (a
  mutation of the router for any user, an activity ping, the sweep, the assignment job),
  and after any run of operations, still none has; the auto-away query of the sweep
  therefore never selects a row of that user. Rows are created without a deadline, so
  in every world reached from the empty one the auto-away pass selects nothing.
\<close>

theorem autoAwayAt_never_armed:
  assumes "autoAwayUnarmed uid mid w"
  shows "autoAwayUnarmed uid mid (perform e now op w)
       \<and> autoAwayUnarmed uid mid (performAll e ops w)
       \<and> (\<forall>t. \<forall>r \<in> set (autoAwayUsers t (performAll e ops w)).
             \<not> (userId r = uid \<and> mailboxId r = mid))
       \<and> (\<forall>t. autoAwayUsers t (performAll e ops emptyWorld) = [])"
proof -
  have 1: "autoAwayUnarmed uid mid (performAll e ops w)"
    using assms by (rule performAll_unarmed)
  have 2: "\<forall>t. \<forall>r \<in> set (autoAwayUsers t (performAll e ops w)).
             \<not> (userId r = uid \<and> mailboxId r = mid)"
    using unarmed_not_selected [OF 1] by blast
  have "autoAwayUnarmed u m emptyWorld" for u m
    by (simp add: autoAwayUnarmed_def emptyWorld_def)
  then have inv: "autoAwayUnarmed u m (performAll e ops emptyWorld)" for u m
    by (rule performAll_unarmed)
  have "autoAwayUsers t (performAll e ops emptyWorld) = []" for t
  proof (cases "autoAwayUsers t (performAll e ops emptyWorld)")
    case Nil
    then show ?thesis .
  next
    case (Cons r rs)
    then have "r \<in> set (autoAwayUsers t (performAll e ops emptyWorld))" by simp
    from unarmed_not_selected [OF inv [of "userId r" "mailboxId r"] this] show ?thesis by simp
  qed
  then have 3: "\<forall>t. autoAwayUsers t (performAll e ops emptyWorld) = []" by simp
  show ?thesis using perform_unarmed [OF assms] 1 2 3 by blast
qed

theorem autoAwayAt_never_armed_witness:
  "autoAwayUnarmed ''u1'' 1 onlineWorld
   \<and> autoAwayUnarmed ''u1'' 1
       (performAll okEnv
          [(5000, SetScheduledReturn ''u1'' 1 6000 None),
           (7000, ProcessScheduledStatusChanges),
           (8000, RecordActivity ''u1'' 1)] onlineWorld)
   \<and> autoAwayUsers 9000
       (performAll okEnv
          [(5000, SetScheduledReturn ''u1'' 1 6000 None),
           (7000, ProcessScheduledStatusChanges),
           (8000, RecordActivity ''u1'' 1)] emptyWorld) = []"
proof -
  have h: "autoAwayUnarmed ''u1'' 1 onlineWorld"
    by (simp add: autoAwayUnarmed_def onlineWorld_def emptyWorld_def exampleRow_def)
  from autoAwayAt_never_armed [OF h, of okEnv 5000 ProcessScheduledStatusChanges
      "[(5000, SetScheduledReturn ''u1'' 1 6000 None),
           (7000, ProcessScheduledStatusChanges),
           (8000, RecordActivity ''u1'' 1)]"] h
  show ?thesis by blast
qed

section \<open>Properties of the scheduled sweep\<close>




lemma applySet_key [simp]:
  "userId (applySet updates now c r) = userId r" "mailboxId (applySet updates now c r) = mailboxId r"
  by (simp_all add: applySet_def)

text \<open>What a fulfilled update has written to the two tables.\<close>

lemma updateUserAvailability_tables:
  assumes "updateUserAvailability e now uid mid updates w = Inr (res, w')"
  shows "case getUserAvailability uid mid w of
           None \<Rightarrow>
             userAvailabilityTbl w' = userAvailabilityTbl w @ [createdRow uid mid updates now]
             \<and> availabilityHistoryTbl w' = availabilityHistoryTbl w
         | Some current \<Rightarrow>
             userAvailabilityTbl w' =
               map (\<lambda>r. if userId r = uid \<and> mailboxId r = mid
                         then applySet updates now current r else r) (userAvailabilityTbl w)
             \<and> availabilityHistoryTbl w' =
                 (case u_status updates of
                    None \<Rightarrow> availabilityHistoryTbl w
                  | Some newStatus \<Rightarrow>
                      if newStatus \<noteq> status current
                      then availabilityHistoryTbl w @
                             [\<lparr>h_userId = uid, h_mailboxId = mid,
                               fromStatus = status current, toStatus = newStatus,
                               durationSeconds = Some ((now - lastStatusChangeAt current) div 1000),
                               changeReason = Some (case u_changeReason updates of
                                                      None \<Rightarrow> manual | Some r \<Rightarrow> r),
                               sessionData = u_sessionData updates, createdAt = now\<rparr>]
                      else availabilityHistoryTbl w)"
proof -
  from assms obtain w1 where
    t: "transactionWrites now uid mid updates w = Inr (res, w1)"
    and w': "w' = w1\<lparr>realtimeEvents := realtimeEvents w1 @ [(mid, res)]\<rparr>"
    by (auto simp: updateUserAvailability_def split: sum.splits if_splits)
  show ?thesis
  proof (cases "getUserAvailability uid mid w")
    case None
    then show ?thesis using t w'
      by (auto simp: transactionWrites_def Let_def)
  next
    case (Some current)
    from transactionWrites_existing [OF Some, of now updates] t w' Some
    show ?thesis by auto
  qed
qed

lemma createdRow_key [simp]:
  "userId (createdRow uid mid updates now) = uid" "mailboxId (createdRow uid mid updates now) = mid"
  by (simp_all add: createdRow_def)

















section \<open>One row per user and mailbox\<close>

text \<open>
  The sweep properties above assume one row per user and mailbox. A row is created only
  for a user who has none and no update changes the user or the mailbox of a row, so
  every operation keeps this, and it holds in every world reached from the empty tables.
\<close>

lemma updateUserAvailability_distinct:
  assumes "distinct (map (\<lambda>r. (userId r, mailboxId r)) (userAvailabilityTbl w))"
    and "updateUserAvailability e now uid mid updates w = Inr (res, w')"
  shows "distinct (map (\<lambda>r. (userId r, mailboxId r)) (userAvailabilityTbl w'))"
proof (cases "getUserAvailability uid mid w")
  case None
  then have "(uid, mid) \<notin> (\<lambda>r. (userId r, mailboxId r)) ` set (userAvailabilityTbl w)"
    by (auto simp: getUserAvailability_def find_None_iff)
  with updateUserAvailability_tables [OF assms(2)] None assms(1) show ?thesis
    by simp
next
  case (Some current)
  with updateUserAvailability_tables [OF assms(2)]
  have "userAvailabilityTbl w' =
          map (\<lambda>r. if userId r = uid \<and> mailboxId r = mid
                    then applySet updates now current r else r) (userAvailabilityTbl w)"
    by simp
  then have "map (\<lambda>r. (userId r, mailboxId r)) (userAvailabilityTbl w')
           = map (\<lambda>r. (userId r, mailboxId r)) (userAvailabilityTbl w)"
    by (simp add: o_def if_distrib cong: if_cong)
  with assms(1) show ?thesis by simp
qed

lemma updateEach_distinct:
  assumes "distinct (map (\<lambda>r. (userId r, mailboxId r)) (userAvailabilityTbl w))"
  shows "distinct (map (\<lambda>r. (userId r, mailboxId r))
           (userAvailabilityTbl (fst (updateEach e now k updates users w))))"
  using assms
proof (induction users arbitrary: k w)
  case Nil
  then show ?case by simp
next
  case (Cons user users)
  show ?case
  proof (cases "updateUserAvailability e (laterReadings e now k) (userId user) (mailboxId user)
                  updates w")
    case (Inl err)
    then show ?thesis using Cons.prems by simp
  next
    case (Inr p)
    then obtain res w1 where p: "p = (res, w1)" by (cases p)
    from Cons.IH [OF updateUserAvailability_distinct [OF Cons.prems Inr [unfolded p]]]
    show ?thesis using Inr p by simp
  qed
qed

lemma recordUserActivity_distinct:
  assumes "distinct (map (\<lambda>r. (userId r, mailboxId r)) (userAvailabilityTbl w))"
    and "recordUserActivity e now uid mid w = Inr w'"
  shows "distinct (map (\<lambda>r. (userId r, mailboxId r)) (userAvailabilityTbl w'))"
proof -
  from assms(2) obtain t updates res where
    "updateUserAvailability e t uid mid updates w = Inr (res, w')"
    by (auto simp: recordUserActivity_def map_sum_def split: option.splits sum.splits)
  from updateUserAvailability_distinct [OF assms(1) this] show ?thesis .
qed

lemma commitAssignment_distinct:
  assumes "distinct (map (\<lambda>r. (userId r, mailboxId r)) (userAvailabilityTbl w1))"
  shows "distinct (map (\<lambda>r. (userId r, mailboxId r))
           (userAvailabilityTbl (snd (commitAssignment e now conv mailbox next member w1))))"
proof (cases "recordUserActivity e now (member_id member) mailbox w1")
  case (Inl err)
  then show ?thesis using assms by (simp add: commitAssignment_def)
next
  case (Inr w2)
  from recordUserActivity_distinct [OF assms Inr] show ?thesis using Inr
    by (simp add: commitAssignment_def updateConversation_def)
qed

lemma autoAssignConversation_distinct:
  assumes "distinct (map (\<lambda>r. (userId r, mailboxId r)) (userAvailabilityTbl w))"
  shows "distinct (map (\<lambda>r. (userId r, mailboxId r))
           (userAvailabilityTbl (snd (autoAssignConversation e now cid w))))"
proof -
  have nxt: "distinct (map (\<lambda>r. (userId r, mailboxId r)) (userAvailabilityTbl w1))"
    if "getNextTeamMember e team conv mailbox w = Inr (n, w1)" for team conv mailbox n w1
    using assms getNextTeamMember_table [OF that] by simp
  show ?thesis
    unfolding autoAssignConversation_def Let_def
    by (auto simp: assms split: option.splits sum.splits prod.splits
        intro!: commitAssignment_distinct dest: nxt)
qed

text \<open>Every operation keeps one row per user and mailbox.\<close>

lemma perform_distinct:
  assumes "distinct (map (\<lambda>r. (userId r, mailboxId r)) (userAvailabilityTbl w))"
  shows "distinct (map (\<lambda>r. (userId r, mailboxId r)) (userAvailabilityTbl (perform e now op w)))"
proof (cases op)
  case (UpdateStatus u m st message)
  then show ?thesis using assms updateUserAvailability_distinct [OF assms]
    by (auto simp: worldAfter_def updateStatus_def split: sum.splits)
next
  case (RecordActivity u m)
  then show ?thesis using assms recordUserActivity_distinct [OF assms]
    by (auto split: sum.splits)
next
  case (SetBusinessHours u m hours)
  then show ?thesis using assms updateUserAvailability_distinct [OF assms]
    by (auto simp: worldAfter_def setBusinessHours_def split: sum.splits)
next
  case (SetScheduledReturn u m returnAt message)
  then show ?thesis using assms updateUserAvailability_distinct [OF assms]
    by (auto simp: worldAfter_def setScheduledReturn_def split: sum.splits)
next
  case ProcessScheduledStatusChanges
  have "distinct (map (\<lambda>r. (userId r, mailboxId r))
          (userAvailabilityTbl (fst (processScheduledStatusChanges e now w))))"
  proof (cases "scheduledReturnPass e now w")
    case (Pair w1 err)
    have d1: "distinct (map (\<lambda>r. (userId r, mailboxId r)) (userAvailabilityTbl w1))"
      using updateEach_distinct [OF assms, of e now 0 scheduledReturnUpdates "scheduledReturns now w"] Pair
      by (simp add: scheduledReturnPass_def)
    show ?thesis
      using Pair d1 updateEach_distinct [OF d1, of e now "length (scheduledReturns now w)"
          autoAwayUpdates "autoAwayUsers now w1"]
      by (cases err) (simp_all add: processScheduledStatusChanges_def autoAwayPass_def)
  qed
  with ProcessScheduledStatusChanges show ?thesis by simp
next
  case (AutoAssignConversation c)
  then show ?thesis using autoAssignConversation_distinct [OF assms] by simp
qed

lemma performAll_distinct:
  assumes "distinct (map (\<lambda>r. (userId r, mailboxId r)) (userAvailabilityTbl w))"
  shows "distinct (map (\<lambda>r. (userId r, mailboxId r)) (userAvailabilityTbl (performAll e ops w)))"
  using assms
proof (induction ops arbitrary: w)
  case Nil
  then show ?case by simp
next
  case (Cons a ops)
  obtain now op where a: "a = (now, op)" by (cases a)
  from Cons.IH [OF perform_distinct [OF Cons.prems]] show ?case by (simp add: a)
qed

section \<open>Properties of the analytics\<close>














text \<open>
  The divisor is the number of rows of the range. A row without a duration, which the
  schema allows and no operation writes, would count in it: with one row of 10 seconds
  and one row without a duration the average computed is 5.
\<close>

lemma row_without_duration_counts_in_divisor:
  "historyInRange 1 0 1000
     (emptyWorld\<lparr>availabilityHistoryTbl :=
        [exampleHistoryRow 1 (Some 10) 100, exampleHistoryRow 1 None 200]\<rparr>)
     = [exampleHistoryRow 1 None 200, exampleHistoryRow 1 (Some 10) 100]
   \<and> averageSessionDuration (getAvailabilityAnalytics okEnv 1 0 1000
       (emptyWorld\<lparr>availabilityHistoryTbl :=
          [exampleHistoryRow 1 (Some 10) 100, exampleHistoryRow 1 None 200]\<rparr>)) = 5
   \<and> totalSessions (getAvailabilityAnalytics okEnv 1 0 1000
       (emptyWorld\<lparr>availabilityHistoryTbl :=
          [exampleHistoryRow 1 (Some 10) 100, exampleHistoryRow 1 None 200]\<rparr>)) = 2"
  by (simp add: getAvailabilityAnalytics_def historyInRange_def analyticsOf_def countRecord_def
      zeroCounters_def exampleHistoryRow_def emptyWorld_def okEnv_def exampleEnv_def Let_def)

end
